theory Spec2Isabelle
  imports Main "HOL-Library.AList"
begin

section \<open>Python values and exceptions\<close>

text \<open>
  The values that reach \<^verbatim>\<open>SQLiteORM\<close> as keyword arguments or come back in result rows.
  A \<^verbatim>\<open>bool\<close> is an \<^verbatim>\<open>int\<close> for \<^verbatim>\<open>isinstance\<close>, as in Python. Floats, bytes and bytearrays are
  kept abstract: each carries the text that \<^verbatim>\<open>str()\<close> gives for it, which is all the code
  ever does with such a value besides handing it to the engine.
\<close>

datatype pyval =
    PNone
  | PBool bool
  | PInt int
  | PFloat string
  | PStr string
  | PBytes string
  | PByteArray string

text \<open>
  What a call on the cursor or the connection raises besides \<^verbatim>\<open>sqlite3.Error\<close>: binding
  an \<^verbatim>\<open>int\<close> that does not fit 64 bits is an \<^verbatim>\<open>OverflowError\<close>, binding a \<^verbatim>\<open>str\<close>
  with a lone surrogate a \<^verbatim>\<open>UnicodeEncodeError\<close>; \<^verbatim>\<open>sqlite3.Warning\<close>, which older
  Pythons raise for a text holding more than one statement, is not an \<^verbatim>\<open>sqlite3.Error\<close>
  either, and \<open>OtherError\<close> stands for any further exception, with the name of its class
  and its message. No \<^verbatim>\<open>except sqlite3.Error\<close> catches them.
\<close>

datatype other_exc =
    OverflowError string
  | UnicodeEncodeError string
  | Sqlite3Warning string
  | OtherError string string

text \<open>
  The exceptions that can leave a method: the ones the code raises itself
  (\<^verbatim>\<open>ValueError\<close>, \<^verbatim>\<open>TypeError\<close>, plain \<^verbatim>\<open>Exception\<close>), the ones Python raises for it
  (\<^verbatim>\<open>AttributeError\<close> on \<^verbatim>\<open>None.commit()\<close>, \<^verbatim>\<open>IndexError\<close>, \<^verbatim>\<open>TypeError\<close>),
  \<^verbatim>\<open>sqlite3.Error\<close>, raised by the engine, carrying the text of \<^verbatim>\<open>str(e)\<close>, and the
  other exceptions of a call on the engine.
\<close>

datatype pyexc =
    ValueError string
  | TypeError string
  | PyException string
  | AttributeError string
  | IndexError string
  | Sqlite3Error string
  | Other other_exc

text \<open>\<^verbatim>\<open>except sqlite3.Error as e\<close>: the message when the handler applies.\<close>

fun sqlite_msg :: "pyexc \<Rightarrow> string option" where
  "sqlite_msg (Sqlite3Error e) = Some e"
| "sqlite_msg (ValueError m) = None"
| "sqlite_msg (TypeError m) = None"
| "sqlite_msg (PyException m) = None"
| "sqlite_msg (AttributeError m) = None"
| "sqlite_msg (IndexError m) = None"
| "sqlite_msg (Other x) = None"

subsection \<open>isinstance\<close>

fun is_int :: "pyval \<Rightarrow> bool" where
  "is_int (PInt i) = True"
| "is_int (PBool b) = True"
| "is_int PNone = False"
| "is_int (PFloat r) = False"
| "is_int (PStr s) = False"
| "is_int (PBytes r) = False"
| "is_int (PByteArray r) = False"

fun is_str :: "pyval \<Rightarrow> bool" where
  "is_str (PStr s) = True"
| "is_str PNone = False"
| "is_str (PBool b) = False"
| "is_str (PInt i) = False"
| "is_str (PFloat r) = False"
| "is_str (PBytes r) = False"
| "is_str (PByteArray r) = False"

fun is_int_or_float :: "pyval \<Rightarrow> bool" where
  "is_int_or_float (PInt i) = True"
| "is_int_or_float (PBool b) = True"
| "is_int_or_float (PFloat r) = True"
| "is_int_or_float PNone = False"
| "is_int_or_float (PStr s) = False"
| "is_int_or_float (PBytes r) = False"
| "is_int_or_float (PByteArray r) = False"

fun is_bytes_or_bytearray :: "pyval \<Rightarrow> bool" where
  "is_bytes_or_bytearray (PBytes r) = True"
| "is_bytes_or_bytearray (PByteArray r) = True"
| "is_bytes_or_bytearray PNone = False"
| "is_bytes_or_bytearray (PBool b) = False"
| "is_bytes_or_bytearray (PInt i) = False"
| "is_bytes_or_bytearray (PFloat r) = False"
| "is_bytes_or_bytearray (PStr s) = False"

subsection \<open>Strings: \<^verbatim>\<open>str()\<close>, \<^verbatim>\<open>join\<close>, \<^verbatim>\<open>upper\<close>\<close>

definition digit_char :: "nat \<Rightarrow> char" where
  "digit_char n = ''0123456789'' ! n"

function str_of_nat :: "nat \<Rightarrow> string" where
  "str_of_nat n =
     (if n < 10 then [digit_char n] else str_of_nat (n div 10) @ [digit_char (n mod 10)])"
  by pat_completeness auto
termination
  by (relation "measure (\<lambda>n. n)") auto

definition str_of_int :: "int \<Rightarrow> string" where
  "str_of_int i = (if i < 0 then CHR ''-'' # str_of_nat (nat (- i)) else str_of_nat (nat i))"

text \<open>What an f-string puts in place of \<^verbatim>\<open>{val}\<close>.\<close>

fun py_str :: "pyval \<Rightarrow> string" where
  "py_str PNone = ''None''"
| "py_str (PBool b) = (if b then ''True'' else ''False'')"
| "py_str (PInt i) = str_of_int i"
| "py_str (PFloat r) = r"
| "py_str (PStr s) = s"
| "py_str (PBytes r) = r"
| "py_str (PByteArray r) = r"

text \<open>\<^verbatim>\<open>sep.join(xs)\<close>\<close>

fun join :: "string \<Rightarrow> string list \<Rightarrow> string" where
  "join sep [] = []"
| "join sep [x] = x"
| "join sep (x # y # ys) = x @ sep @ join sep (y # ys)"

text \<open>\<^verbatim>\<open>str.upper\<close>, on the ASCII letters (the four type names compared against are ASCII).\<close>

definition upper_char :: "char \<Rightarrow> char" where
  "upper_char c =
     (case map_of (zip ''abcdefghijklmnopqrstuvwxyz'' ''ABCDEFGHIJKLMNOPQRSTUVWXYZ'') c of
        Some u \<Rightarrow> u
      | None \<Rightarrow> c)"

definition upper :: "string \<Rightarrow> string" where
  "upper s = map upper_char s"

definition quote :: string where
  "quote = [CHR 0x27]"

section \<open>The engine: sqlite3's connection and cursor\<close>

text \<open>
  The engine is the external collaborator. Every call the class makes on
  \<^verbatim>\<open>self.cursor\<close> or \<^verbatim>\<open>self.connection\<close> is a value of type \<open>call\<close>; the engine answers it
  from its own state \<open>'e\<close>: it raises \<^verbatim>\<open>sqlite3.Error\<close> (\<open>Raises\<close>, with the text of the
  error), raises another exception (\<open>RaisesOther\<close>), or returns, and for a cursor
  statement the return carries what the cursor then holds (all the rows at once: a
  failure while fetching counts as a failure of the statement, both being inside the same
  \<^verbatim>\<open>try\<close>). The engine is a parameter of every operation: theorems hold for every
  engine. What the methods print is left out.
\<close>

datatype call =
    CursorExecute string "pyval list"
  | ConnExecute string
  | ConnCommit
  | ConnRollback
  | ConnClose

record result =
  rows :: "pyval list list"
  lastrowid :: "int option"
  rowcount :: int

datatype reply = Raises string | RaisesOther other_exc | Returns result

type_synonym 'e engine = "call \<Rightarrow> 'e \<Rightarrow> reply \<times> 'e"

fun returned :: "reply \<Rightarrow> bool" where
  "returned (Returns r) = True"
| "returned (Raises e) = False"
| "returned (RaisesOther x) = False"

datatype conn = Connection

text \<open>
  The object: \<open>connection\<close> is \<open>None\<close> after \<^verbatim>\<open>close\<close>, \<open>cursor\<close> is what the cursor
  holds from its last statement, \<open>in_transaction\<close> is the flag. \<open>db\<close> is the engine's
  state and \<open>issued\<close> the calls made on the engine so far, each with whether it returned;
  \<open>issued\<close> is never read by an operation.
\<close>

record 'e orm =
  connection :: "conn option"
  cursor :: result
  in_transaction :: bool
  db :: 'e
  issued :: "(call \<times> bool) list"

definition no_result :: result where
  "no_result = \<lparr>rows = [], lastrowid = None, rowcount = -1\<rparr>"

text \<open>\<^verbatim>\<open>__init__\<close>, when \<^verbatim>\<open>sqlite3.connect\<close> returns a connection on the database \<open>d\<close>.\<close>

definition init :: "'e \<Rightarrow> 'e orm" where
  "init d = \<lparr>connection = Some Connection, cursor = no_result, in_transaction = False,
             db = d, issued = []\<rparr>"

definition issue :: "'e engine \<Rightarrow> call \<Rightarrow> 'e orm \<Rightarrow> reply \<times> 'e orm" where
  "issue eng c s =
     (case eng c (db s) of
        (r, d') \<Rightarrow> (r, s\<lparr>db := d', issued := issued s @ [(c, returned r)]\<rparr>))"

text \<open>\<^verbatim>\<open>self.cursor.execute(query, values)\<close>\<close>

definition cursor_execute ::
  "'e engine \<Rightarrow> string \<Rightarrow> pyval list \<Rightarrow> 'e orm \<Rightarrow> (pyexc + unit) \<times> 'e orm" where
  "cursor_execute eng query vals s =
     (case issue eng (CursorExecute query vals) s of
        (Raises e, s1) \<Rightarrow> (Inl (Sqlite3Error e), s1)
      | (RaisesOther x, s1) \<Rightarrow> (Inl (Other x), s1)
      | (Returns r, s1) \<Rightarrow> (Inr (), s1\<lparr>cursor := r\<rparr>))"

text \<open>\<^verbatim>\<open>self.cursor.fetchone()\<close> and \<^verbatim>\<open>self.cursor.fetchall()\<close>\<close>

definition fetchone :: "'e orm \<Rightarrow> pyval list option \<times> 'e orm" where
  "fetchone s =
     (case rows (cursor s) of
        [] \<Rightarrow> (None, s)
      | r # rs \<Rightarrow> (Some r, s\<lparr>cursor := (cursor s)\<lparr>rows := rs\<rparr>\<rparr>))"

definition fetchall :: "'e orm \<Rightarrow> pyval list list \<times> 'e orm" where
  "fetchall s = (rows (cursor s), s\<lparr>cursor := (cursor s)\<lparr>rows := []\<rparr>\<rparr>)"

text \<open>
  \<^verbatim>\<open>self.connection.m(...)\<close>: an \<^verbatim>\<open>AttributeError\<close> when \<^verbatim>\<open>self.connection\<close> is \<^verbatim>\<open>None\<close>,
  and nothing reaches the engine.
\<close>

fun method_name :: "call \<Rightarrow> string" where
  "method_name (CursorExecute q vs) = ''execute''"
| "method_name (ConnExecute q) = ''execute''"
| "method_name ConnCommit = ''commit''"
| "method_name ConnRollback = ''rollback''"
| "method_name ConnClose = ''close''"

definition no_attribute :: "string \<Rightarrow> string" where
  "no_attribute m =
     quote @ ''NoneType'' @ quote @ '' object has no attribute '' @ quote @ m @ quote"

definition connection_call :: "'e engine \<Rightarrow> call \<Rightarrow> 'e orm \<Rightarrow> (pyexc + unit) \<times> 'e orm" where
  "connection_call eng c s =
     (case connection s of
        None \<Rightarrow>
          (Inl (AttributeError (no_attribute (method_name c))), s)
      | Some k \<Rightarrow>
          (case issue eng c s of
             (Raises e, s1) \<Rightarrow> (Inl (Sqlite3Error e), s1)
           | (RaisesOther x, s1) \<Rightarrow> (Inl (Other x), s1)
           | (Returns r, s1) \<Rightarrow> (Inr (), s1)))"

section \<open>Explicit transaction controls\<close>

definition begin_transaction :: "'e engine \<Rightarrow> 'e orm \<Rightarrow> (pyexc + unit) \<times> 'e orm" where
  "begin_transaction eng s =
     (case connection_call eng (ConnExecute ''BEGIN TRANSACTION;'') s of
        (Inr u, s1) \<Rightarrow> (Inr (), s1\<lparr>in_transaction := True\<rparr>)
      | (Inl x, s1) \<Rightarrow>
          (case sqlite_msg x of
             Some e \<Rightarrow> (Inl (PyException (''Transaction start failed: '' @ e)), s1)
           | None \<Rightarrow> (Inl x, s1)))"

definition commit_transaction :: "'e engine \<Rightarrow> 'e orm \<Rightarrow> (pyexc + unit) \<times> 'e orm" where
  "commit_transaction eng s =
     (case connection_call eng ConnCommit s of
        (Inr u, s1) \<Rightarrow> (Inr (), s1\<lparr>in_transaction := False\<rparr>)
      | (Inl x, s1) \<Rightarrow>
          (case sqlite_msg x of
             Some e \<Rightarrow>
               (case connection_call eng ConnRollback s1 of
                  (Inl y, s2) \<Rightarrow> (Inl y, s2)
                | (Inr u, s2) \<Rightarrow>
                    (Inl (PyException (''Transaction commit failed: '' @ e)),
                     s2\<lparr>in_transaction := False\<rparr>))
           | None \<Rightarrow> (Inl x, s1)))"

definition rollback_transaction :: "'e engine \<Rightarrow> 'e orm \<Rightarrow> (pyexc + unit) \<times> 'e orm" where
  "rollback_transaction eng s =
     (if in_transaction s then
        (case connection_call eng ConnRollback s of
           (Inr u, s1) \<Rightarrow> (Inr (), s1\<lparr>in_transaction := False\<rparr>)
         | (Inl x, s1) \<Rightarrow>
             (case sqlite_msg x of
                Some e \<Rightarrow> (Inl (PyException (''Transaction rollback failed: '' @ e)), s1)
              | None \<Rightarrow> (Inl x, s1)))
      else (Inr (), s))"


section \<open>Schema and DDL passthroughs\<close>



text \<open>
  \<^verbatim>\<open>{col[1]: col[2] for col in schema}\<close>: a dict as an association list in insertion
  order; a later row with the same name overwrites the type in place. A row shorter than
  three raises \<^verbatim>\<open>IndexError\<close>, a bytearray as key \<^verbatim>\<open>TypeError\<close>. Keys are compared as
  values of \<open>pyval\<close>; Python also takes \<^verbatim>\<open>1\<close>, \<^verbatim>\<open>1.0\<close> and \<^verbatim>\<open>True\<close> for one key,
  which no lookup of the code can see: it looks up strings only, and tests the dict for
  emptiness.
\<close>

fun dict_of_rows ::
  "pyval list list \<Rightarrow> (pyval \<times> pyval) list \<Rightarrow> pyexc + (pyval \<times> pyval) list" where
  "dict_of_rows [] d = Inr d"
| "dict_of_rows (col # cols) d =
     (case col of
        c0 # c1 # c2 # rest \<Rightarrow>
          (case c1 of
             PByteArray r \<Rightarrow> Inl (TypeError (''unhashable type: '' @ quote @ ''bytearray'' @ quote))
           | PNone \<Rightarrow> dict_of_rows cols (AList.update c1 c2 d)
           | PBool b \<Rightarrow> dict_of_rows cols (AList.update c1 c2 d)
           | PInt i \<Rightarrow> dict_of_rows cols (AList.update c1 c2 d)
           | PFloat r \<Rightarrow> dict_of_rows cols (AList.update c1 c2 d)
           | PStr n \<Rightarrow> dict_of_rows cols (AList.update c1 c2 d)
           | PBytes r \<Rightarrow> dict_of_rows cols (AList.update c1 c2 d))
      | [c0, c1] \<Rightarrow> Inl (IndexError ''tuple index out of range'')
      | [c0] \<Rightarrow> Inl (IndexError ''tuple index out of range'')
      | [] \<Rightarrow> Inl (IndexError ''tuple index out of range''))"

definition table_info_query :: "string \<Rightarrow> string" where
  "table_info_query table_name = ''PRAGMA table_info('' @ table_name @ '');''"

definition get_table_schema ::
  "'e engine \<Rightarrow> string \<Rightarrow> 'e orm \<Rightarrow> (pyexc + (pyval \<times> pyval) list) \<times> 'e orm" where
  "get_table_schema eng table_name s =
     (case cursor_execute eng (table_info_query table_name) [] s of
        (Inl x, s1) \<Rightarrow>
          (case sqlite_msg x of
             Some e \<Rightarrow> (Inr [], s1)
           | None \<Rightarrow> (Inl x, s1))
      | (Inr u, s1) \<Rightarrow>
          (case fetchall s1 of
             (schema, s2) \<Rightarrow>
               (case dict_of_rows schema [] of
                  Inl x \<Rightarrow> (Inl x, s2)
                | Inr d \<Rightarrow> (Inr d, s2))))"







section \<open>Read operations\<close>

text \<open>\<^verbatim>\<open>' AND '.join([f'{col}=?' for col in kwargs.keys()])\<close>\<close>

definition conditions :: "(string \<times> pyval) list \<Rightarrow> string" where
  "conditions kwargs = join '' AND '' (map (\<lambda>col. col @ ''=?'') (map fst kwargs))"

definition get_query :: "string \<Rightarrow> (string \<times> pyval) list \<Rightarrow> string" where
  "get_query table_name kwargs =
     ''SELECT * FROM '' @ table_name @ '' WHERE '' @ conditions kwargs @ '' LIMIT 1;''"

definition get ::
  "'e engine \<Rightarrow> string \<Rightarrow> (string \<times> pyval) list \<Rightarrow> 'e orm
     \<Rightarrow> (pyexc + pyval list option) \<times> 'e orm" where
  "get eng table_name kwargs s =
     (if kwargs = [] then (Inl (ValueError ''No conditions provided for the query''), s)
      else
        (case cursor_execute eng (get_query table_name kwargs) (map snd kwargs) s of
           (Inl x, s1) \<Rightarrow>
             (case sqlite_msg x of
                Some e \<Rightarrow> (Inr None, s1)
              | None \<Rightarrow> (Inl x, s1))
         | (Inr u, s1) \<Rightarrow> (case fetchone s1 of (r, s2) \<Rightarrow> (Inr r, s2))))"

definition filter_query :: "string \<Rightarrow> (string \<times> pyval) list \<Rightarrow> string" where
  "filter_query table_name kwargs =
     (if kwargs = [] then ''SELECT * FROM '' @ table_name @ '';''
      else ''SELECT * FROM '' @ table_name @ '' WHERE '' @ conditions kwargs @ '';'')"

definition filter_rows ::
  "'e engine \<Rightarrow> string \<Rightarrow> (string \<times> pyval) list \<Rightarrow> 'e orm
     \<Rightarrow> (pyexc + pyval list list) \<times> 'e orm" where
  "filter_rows eng table_name kwargs s =
     (case cursor_execute eng (filter_query table_name kwargs) (map snd kwargs) s of
        (Inl x, s1) \<Rightarrow>
          (case sqlite_msg x of
             Some e \<Rightarrow> (Inr [], s1)
           | None \<Rightarrow> (Inl x, s1))
      | (Inr u, s1) \<Rightarrow> (case fetchall s1 of (rs, s2) \<Rightarrow> (Inr rs, s2)))"

definition all_query :: "string \<Rightarrow> string" where
  "all_query table_name = ''SELECT * FROM '' @ table_name @ '';''"

definition all_rows :: "'e engine \<Rightarrow> string \<Rightarrow> 'e orm \<Rightarrow> (pyexc + pyval list list) \<times> 'e orm" where
  "all_rows eng table_name s =
     (case cursor_execute eng (all_query table_name) [] s of
        (Inl x, s1) \<Rightarrow>
          (case sqlite_msg x of
             Some e \<Rightarrow> (Inr [], s1)
           | None \<Rightarrow> (Inl x, s1))
      | (Inr u, s1) \<Rightarrow> (case fetchall s1 of (rs, s2) \<Rightarrow> (Inr rs, s2)))"

definition exists_query :: "string \<Rightarrow> (string \<times> pyval) list \<Rightarrow> string" where
  "exists_query table_name kwargs =
     ''SELECT 1 FROM '' @ table_name @ '' WHERE '' @ conditions kwargs @ '' LIMIT 1;''"

definition exists ::
  "'e engine \<Rightarrow> string \<Rightarrow> (string \<times> pyval) list \<Rightarrow> 'e orm \<Rightarrow> (pyexc + bool) \<times> 'e orm" where
  "exists eng table_name kwargs s =
     (if kwargs = [] then
        (Inl (ValueError ''Conditions must be provided to check existence''), s)
      else
        (case cursor_execute eng (exists_query table_name kwargs) (map snd kwargs) s of
           (Inl x, s1) \<Rightarrow>
             (case sqlite_msg x of
                Some e \<Rightarrow> (Inr False, s1)
              | None \<Rightarrow> (Inl x, s1))
         | (Inr u, s1) \<Rightarrow> (case fetchone s1 of (r, s2) \<Rightarrow> (Inr (r \<noteq> None), s2))))"

definition count_query :: "string \<Rightarrow> (string \<times> pyval) list \<Rightarrow> string" where
  "count_query table_name kwargs =
     (if kwargs \<noteq> [] then
        ''SELECT COUNT(*) FROM '' @ table_name @ '' WHERE '' @ conditions kwargs @ '';''
      else ''SELECT COUNT(*) FROM '' @ table_name @ '';'')"

text \<open>\<^verbatim>\<open>self.cursor.fetchone()[0]\<close> subscripts what \<^verbatim>\<open>fetchone\<close> returned.\<close>

definition count ::
  "'e engine \<Rightarrow> string \<Rightarrow> (string \<times> pyval) list \<Rightarrow> 'e orm \<Rightarrow> (pyexc + pyval) \<times> 'e orm" where
  "count eng table_name kwargs s =
     (case cursor_execute eng (count_query table_name kwargs) (map snd kwargs) s of
        (Inl x, s1) \<Rightarrow>
          (case sqlite_msg x of
             Some e \<Rightarrow> (Inr (PInt 0), s1)
           | None \<Rightarrow> (Inl x, s1))
      | (Inr u, s1) \<Rightarrow>
          (case fetchone s1 of
             (None, s2) \<Rightarrow>
               (Inl (TypeError (quote @ ''NoneType'' @ quote @ '' object is not subscriptable'')), s2)
           | (Some [], s2) \<Rightarrow> (Inl (IndexError ''tuple index out of range''), s2)
           | (Some (v # vs), s2) \<Rightarrow> (Inr v, s2)))"

section \<open>Mutating operations\<close>

text \<open>
  The \<^verbatim>\<open>try\<close> blocks of \<^verbatim>\<open>create\<close>, \<^verbatim>\<open>update\<close> and \<^verbatim>\<open>delete\<close> are the same text around
  their own statement: begin if no transaction is flagged, execute, commit if
  \<^verbatim>\<open>not self.in_transaction or in_self_trasaction\<close> (evaluated left to right).
\<close>

definition run_in_transaction ::
  "'e engine \<Rightarrow> string \<Rightarrow> pyval list \<Rightarrow> 'e orm \<Rightarrow> (pyexc + unit) \<times> 'e orm" where
  "run_in_transaction eng query vals s =
     (let in_self_trasaction = \<not> in_transaction s in
      case (if \<not> in_transaction s then begin_transaction eng s else (Inr (), s)) of
        (Inl x, s1) \<Rightarrow> (Inl x, s1)
      | (Inr u, s1) \<Rightarrow>
          (case cursor_execute eng query vals s1 of
             (Inl x, s2) \<Rightarrow> (Inl x, s2)
           | (Inr u, s2) \<Rightarrow>
               (if \<not> in_transaction s2 then commit_transaction eng s2
                else if in_self_trasaction then commit_transaction eng s2
                else (Inr (), s2))))"

subsection \<open>create\<close>

definition insert_query :: "string \<Rightarrow> (string \<times> pyval) list \<Rightarrow> string" where
  "insert_query table_name kwargs =
     ''INSERT INTO '' @ table_name @ '' ('' @ join '', '' (map fst kwargs) @ '') VALUES (''
       @ join '', '' (map (\<lambda>v. ''?'') (map snd kwargs)) @ '');''"

text \<open>
  The validation loop of \<^verbatim>\<open>create\<close>: the first column that fails raises.
  \<^verbatim>\<open>schema[col].upper()\<close> is an \<^verbatim>\<open>AttributeError\<close> on a declared type that is
  \<^verbatim>\<open>None\<close> or a number; on bytes it returns bytes, which equal none of the four
  names, so that no check applies.
\<close>

definition no_upper :: "string \<Rightarrow> pyexc" where
  "no_upper ty =
     AttributeError (quote @ ty @ quote @ '' object has no attribute '' @ quote @ ''upper'' @ quote)"

fun check_columns ::
  "string \<Rightarrow> (pyval \<times> pyval) list \<Rightarrow> (string \<times> pyval) list \<Rightarrow> pyexc option" where
  "check_columns table_name schema [] = None"
| "check_columns table_name schema ((col, val) # kwargs) =
     (case map_of schema (PStr col) of
        None \<Rightarrow>
          Some (ValueError (''Column '' @ quote @ col @ quote @ '' does not exist in table ''
                  @ quote @ table_name @ quote))
      | Some (PStr t) \<Rightarrow>
          (let expected_type = upper t in
           if expected_type = ''INTEGER'' \<and> \<not> is_int val then
             Some (TypeError (''Value for column '' @ quote @ col @ quote
                     @ '' should be of type INTEGER''))
           else if expected_type = ''TEXT'' \<and> \<not> is_str val then
             Some (TypeError (''Value for column '' @ quote @ col @ quote
                     @ '' should be of type TEXT''))
           else if expected_type = ''REAL'' \<and> \<not> is_int_or_float val then
             Some (TypeError (''Value for column '' @ quote @ col @ quote
                     @ '' should be of type REAL''))
           else if expected_type = ''BLOB'' \<and> \<not> is_bytes_or_bytearray val then
             Some (TypeError (''Value for column '' @ quote @ col @ quote
                     @ '' should be of type BLOB''))
           else check_columns table_name schema kwargs)
      | Some PNone \<Rightarrow> Some (no_upper ''NoneType'')
      | Some (PBool b) \<Rightarrow> Some (no_upper ''bool'')
      | Some (PInt i) \<Rightarrow> Some (no_upper ''int'')
      | Some (PFloat r) \<Rightarrow> Some (no_upper ''float'')
      | Some (PBytes r) \<Rightarrow> check_columns table_name schema kwargs
      | Some (PByteArray r) \<Rightarrow> check_columns table_name schema kwargs)"

definition create_handler :: "'e engine \<Rightarrow> string \<Rightarrow> 'e orm \<Rightarrow> (pyexc + int option) \<times> 'e orm" where
  "create_handler eng e s =
     (case (if in_transaction s then rollback_transaction eng s else (Inr (), s)) of
        (Inl y, s1) \<Rightarrow> (Inl y, s1)
      | (Inr u, s1) \<Rightarrow> (Inl (PyException (''Insertion failed: '' @ e)), s1))"

definition create ::
  "'e engine \<Rightarrow> string \<Rightarrow> (string \<times> pyval) list \<Rightarrow> 'e orm
     \<Rightarrow> (pyexc + int option) \<times> 'e orm" where
  "create eng table_name kwargs s =
     (if kwargs = [] then (Inl (ValueError ''No data provided for insertion''), s)
      else
        (case get_table_schema eng table_name s of
           (Inl x, s0) \<Rightarrow> (Inl x, s0)
         | (Inr schema, s0) \<Rightarrow>
             (if schema = [] then
                (Inl (ValueError (''Table '' @ quote @ table_name @ quote
                        @ '' does not exist or could not be retrieved'')), s0)
              else
                (case check_columns table_name schema kwargs of
                   Some x \<Rightarrow> (Inl x, s0)
                 | None \<Rightarrow>
                     (case run_in_transaction eng (insert_query table_name kwargs)
                             (map snd kwargs) s0 of
                        (Inr u, s1) \<Rightarrow> (Inr (lastrowid (cursor s1)), s1)
                      | (Inl x, s1) \<Rightarrow>
                          (case sqlite_msg x of
                             Some e \<Rightarrow> create_handler eng e s1
                           | None \<Rightarrow> (Inl x, s1)))))))"

subsection \<open>update\<close>

definition update_query ::
  "string \<Rightarrow> (string \<times> pyval) list \<Rightarrow> (string \<times> pyval) list \<Rightarrow> string" where
  "update_query table_name filters kwargs =
     ''UPDATE '' @ table_name @ '' SET '' @ join '', '' (map (\<lambda>col. col @ ''=?'') (map fst kwargs))
       @ '' WHERE '' @ join '' AND '' (map (\<lambda>col. col @ ''=?'') (map fst filters)) @ '';''"

text \<open>
  The handlers of \<^verbatim>\<open>update\<close> and \<^verbatim>\<open>delete\<close> call \<^verbatim>\<open>self.connection.rollback()\<close>
  themselves; the flag is not touched.
\<close>

definition update_handler :: "'e engine \<Rightarrow> string \<Rightarrow> 'e orm \<Rightarrow> (pyexc + int) \<times> 'e orm" where
  "update_handler eng e s =
     (case connection_call eng ConnRollback s of
        (Inl y, s1) \<Rightarrow> (Inl y, s1)
      | (Inr u, s1) \<Rightarrow> (Inl (PyException (''Update failed: '' @ e)), s1))"

definition update ::
  "'e engine \<Rightarrow> string \<Rightarrow> (string \<times> pyval) list \<Rightarrow> (string \<times> pyval) list \<Rightarrow> 'e orm
     \<Rightarrow> (pyexc + int) \<times> 'e orm" where
  "update eng table_name filters kwargs s =
     (if filters = [] \<or> kwargs = [] then
        (Inl (ValueError ''Both filters and update data must be provided''), s)
      else
        (case run_in_transaction eng (update_query table_name filters kwargs)
                (map snd kwargs @ map snd filters) s of
           (Inr u, s1) \<Rightarrow> (Inr (rowcount (cursor s1)), s1)
         | (Inl x, s1) \<Rightarrow>
             (case sqlite_msg x of
                Some e \<Rightarrow> update_handler eng e s1
              | None \<Rightarrow> (Inl x, s1))))"

subsection \<open>delete\<close>

text \<open>\<^verbatim>\<open>' AND '.join([f"{col}='{val}'" for col, val in kwargs.items()])\<close>\<close>

definition delete_conditions :: "(string \<times> pyval) list \<Rightarrow> string" where
  "delete_conditions kwargs =
     join '' AND '' (map (\<lambda>(col, val). col @ ''='' @ quote @ py_str val @ quote) kwargs)"

definition delete_query :: "string \<Rightarrow> (string \<times> pyval) list \<Rightarrow> string" where
  "delete_query table_name kwargs =
     ''DELETE FROM '' @ table_name @ '' WHERE '' @ delete_conditions kwargs @ '';''"

definition delete_handler :: "'e engine \<Rightarrow> string \<Rightarrow> 'e orm \<Rightarrow> (pyexc + int) \<times> 'e orm" where
  "delete_handler eng e s =
     (case connection_call eng ConnRollback s of
        (Inl y, s1) \<Rightarrow> (Inl y, s1)
      | (Inr u, s1) \<Rightarrow> (Inl (PyException (''Deletion failed: '' @ e)), s1))"

definition delete ::
  "'e engine \<Rightarrow> string \<Rightarrow> (string \<times> pyval) list \<Rightarrow> 'e orm \<Rightarrow> (pyexc + int) \<times> 'e orm" where
  "delete eng table_name kwargs s =
     (case run_in_transaction eng (delete_query table_name kwargs) [] s of
        (Inr u, s1) \<Rightarrow> (Inr (rowcount (cursor s1)), s1)
      | (Inl x, s1) \<Rightarrow>
          (case sqlite_msg x of
             Some e \<Rightarrow> delete_handler eng e s1
           | None \<Rightarrow> (Inl x, s1)))"

section \<open>What the properties speak about\<close>

text \<open>The calls an operation added to the log, from the state before and the state after.\<close>

definition new_calls :: "'e orm \<Rightarrow> 'e orm \<Rightarrow> (call \<times> bool) list" where
  "new_calls s s' = drop (length (issued s)) (issued s')"

definition begin_call :: call where
  "begin_call = ConnExecute ''BEGIN TRANSACTION;''"

text \<open>
  Whether a transaction is open, read off the calls made on the engine: opened by a
  \<^verbatim>\<open>BEGIN\<close> that returned, closed by a commit or a rollback that returned.
\<close>

fun txn_step :: "bool \<Rightarrow> call \<times> bool \<Rightarrow> bool" where
  "txn_step b (c, ok) =
     (if ok \<and> c = begin_call then True
      else if ok \<and> (c = ConnCommit \<or> c = ConnRollback) then False
      else b)"

definition txn_open :: "(call \<times> bool) list \<Rightarrow> bool" where
  "txn_open cs = foldl txn_step False cs"

text \<open>The statement each mutating operation sends, and the schema lookup of \<^verbatim>\<open>create\<close>.\<close>

definition insert_call :: "string \<Rightarrow> (string \<times> pyval) list \<Rightarrow> call" where
  "insert_call table_name kwargs = CursorExecute (insert_query table_name kwargs) (map snd kwargs)"

definition update_call ::
  "string \<Rightarrow> (string \<times> pyval) list \<Rightarrow> (string \<times> pyval) list \<Rightarrow> call" where
  "update_call table_name filters kwargs =
     CursorExecute (update_query table_name filters kwargs) (map snd kwargs @ map snd filters)"

definition delete_call :: "string \<Rightarrow> (string \<times> pyval) list \<Rightarrow> call" where
  "delete_call table_name kwargs = CursorExecute (delete_query table_name kwargs) []"

definition schema_call :: "string \<Rightarrow> call" where
  "schema_call table_name = CursorExecute (table_info_query table_name) []"

text \<open>
  A keyword argument that \<^verbatim>\<open>create\<close> has to reject against a schema: the column is
  not in the schema, or the value's runtime type does not match the declared type (or the
  declared type is \<^verbatim>\<open>None\<close> or a number, and \<^verbatim>\<open>.upper()\<close> fails on it).
\<close>

fun bad_column :: "(pyval \<times> pyval) list \<Rightarrow> string \<times> pyval \<Rightarrow> bool" where
  "bad_column schema (col, val) =
     (case map_of schema (PStr col) of
        None \<Rightarrow> True
      | Some (PStr ty) \<Rightarrow>
          (upper ty = ''INTEGER'' \<and> \<not> is_int val)
          \<or> (upper ty = ''TEXT'' \<and> \<not> is_str val)
          \<or> (upper ty = ''REAL'' \<and> \<not> is_int_or_float val)
          \<or> (upper ty = ''BLOB'' \<and> \<not> is_bytes_or_bytearray val)
      | Some PNone \<Rightarrow> True
      | Some (PBool b) \<Rightarrow> True
      | Some (PInt i) \<Rightarrow> True
      | Some (PFloat r) \<Rightarrow> True
      | Some (PBytes r) \<Rightarrow> False
      | Some (PByteArray r) \<Rightarrow> False)"


text \<open>
  An engine for running the operations on concrete inputs: it answers the calls it
  receives with the replies of a script, in order, and returns an empty result once the
  script is used up.
\<close>

definition ok_result :: result where
  "ok_result = \<lparr>rows = [], lastrowid = None, rowcount = 0\<rparr>"

fun scripted :: "reply list engine" where
  "scripted c [] = (Returns ok_result, [])"
| "scripted c (r # script) = (r, script)"


text \<open>
  What \<^verbatim>\<open>PRAGMA table_info\<close> returns for the table of the test suite
  (\<^verbatim>\<open>id INTEGER PRIMARY KEY, name TEXT, age INTEGER\<close>).
\<close>

definition test_table_info :: result where
  "test_table_info =
     \<lparr>rows = [[PInt 0, PStr ''id'', PStr ''INTEGER'', PInt 0, PNone, PInt 1],
              [PInt 1, PStr ''name'', PStr ''TEXT'', PInt 0, PNone, PInt 0],
              [PInt 2, PStr ''age'', PStr ''INTEGER'', PInt 0, PNone, PInt 0]],
      lastrowid = None, rowcount = -1\<rparr>"

text \<open>A store on which the caller has begun a transaction, the engine following a script.\<close>

definition started :: "reply list \<Rightarrow> reply list orm" where
  "started script = snd (begin_transaction scripted (init (Returns ok_result # script)))"

text \<open>The cursor after a statement that changed one row, and after the first insert.\<close>

definition changed_one :: result where
  "changed_one = \<lparr>rows = [], lastrowid = None, rowcount = 1\<rparr>"

definition inserted_first :: result where
  "inserted_first = \<lparr>rows = [], lastrowid = Some 1, rowcount = 1\<rparr>"


section \<open>Evaluating the operations\<close>

lemmas prim_defs = issue_def cursor_execute_def connection_call_def fetchone_def fetchall_def
  begin_transaction_def commit_transaction_def rollback_transaction_def
  run_in_transaction_def init_def ok_result_def no_result_def begin_call_def

section \<open>Query text and filter values\<close>

text \<open>
  C4. Every query-building path is to bind the filter values as parameters, so that the
  statement text does not depend on them. \<^verbatim>\<open>delete\<close> does not: it writes each value,
  between quotes, into the text and passes no parameter. Two filters on the same column
  give two statements, and a value that holds a quote changes the shape of the
  \<^verbatim>\<open>WHERE\<close> clause.
\<close>

theorem delete_interpolates_filter_values:
  "delete_query ''test_table'' [(''name'', PStr ''Alice'')]
     = ''DELETE FROM test_table WHERE name='Alice';''
   \<and> delete_query ''test_table'' [(''name'', PStr ''Bob'')]
     = ''DELETE FROM test_table WHERE name='Bob';''
   \<and> delete_query ''test_table'' [(''name'', PStr ''x' OR '1'='1'')]
     = ''DELETE FROM test_table WHERE name='x' OR '1'='1';''
   \<and> issued (snd (delete scripted ''test_table'' [(''name'', PStr ''Alice'')] (init [])))
     = [(begin_call, True),
        (CursorExecute ''DELETE FROM test_table WHERE name='Alice';'' [], True),
        (ConnCommit, True)]"
  by (simp add: delete_query_def delete_conditions_def quote_def delete_def prim_defs)

section \<open>delete without filters\<close>

text \<open>
  C5. \<^verbatim>\<open>delete\<close> with no filter is to run an unconstrained delete. The statement it
  builds keeps the \<^verbatim>\<open>WHERE\<close> keyword with nothing after it, which is not the
  unconstrained statement; when the engine rejects it, the handler rolls back and the
  call raises.
\<close>

theorem delete_without_filters_is_malformed:
  "delete_query ''test_table'' [] = ''DELETE FROM test_table WHERE ;''
   \<and> delete_query ''test_table'' [] \<noteq> ''DELETE FROM test_table;''
   \<and> fst (delete scripted ''test_table'' []
             (init [Returns ok_result, Raises ''syntax error'', Returns ok_result]))
        = Inl (PyException ''Deletion failed: syntax error'')
   \<and> issued (snd (delete scripted ''test_table'' []
             (init [Returns ok_result, Raises ''syntax error'', Returns ok_result])))
        = [(begin_call, True),
           (CursorExecute ''DELETE FROM test_table WHERE ;'' [], False),
           (ConnRollback, True)]"
  by (simp add: delete_query_def delete_conditions_def quote_def delete_def delete_handler_def
      prim_defs)

section \<open>The flag and the transaction\<close>

text \<open>
  C2. The flag is to be true exactly when a transaction is open. In \<^verbatim>\<open>update\<close> the
  handler rolls the connection back and leaves the flag as it is: after a statement that
  fails, the transaction is closed and the flag still says it is open.
\<close>

theorem update_failure_leaves_flag_set:
  "in_transaction (init [Returns ok_result, Raises ''no such column: agee'', Returns ok_result])
     = txn_open (issued (init [Returns ok_result, Raises ''no such column: agee'', Returns ok_result]))
   \<and> fst (update scripted ''test_table'' [(''name'', PStr ''Alice'')] [(''agee'', PInt 31)]
             (init [Returns ok_result, Raises ''no such column: agee'', Returns ok_result]))
        = Inl (PyException ''Update failed: no such column: agee'')
   \<and> issued (snd (update scripted ''test_table'' [(''name'', PStr ''Alice'')] [(''agee'', PInt 31)]
             (init [Returns ok_result, Raises ''no such column: agee'', Returns ok_result])))
        = [(begin_call, True),
           (CursorExecute ''UPDATE test_table SET agee=? WHERE name=?;''
              [PInt 31, PStr ''Alice''], False),
           (ConnRollback, True)]
   \<and> in_transaction (snd (update scripted ''test_table'' [(''name'', PStr ''Alice'')]
             [(''agee'', PInt 31)]
             (init [Returns ok_result, Raises ''no such column: agee'', Returns ok_result])))
   \<and> \<not> txn_open (issued (snd (update scripted ''test_table'' [(''name'', PStr ''Alice'')]
             [(''agee'', PInt 31)]
             (init [Returns ok_result, Raises ''no such column: agee'', Returns ok_result]))))"
  by (simp add: update_def update_query_def update_handler_def txn_open_def prim_defs)

section \<open>Read paths\<close>

subsection \<open>What one cursor statement does\<close>

lemma cursor_execute_eq:
  "cursor_execute eng q vs s =
     (case eng (CursorExecute q vs) (db s) of
        (Raises e, d') \<Rightarrow>
          (Inl (Sqlite3Error e), s\<lparr>db := d', issued := issued s @ [(CursorExecute q vs, False)]\<rparr>)
      | (RaisesOther x, d') \<Rightarrow>
          (Inl (Other x), s\<lparr>db := d', issued := issued s @ [(CursorExecute q vs, False)]\<rparr>)
      | (Returns r, d') \<Rightarrow>
          (Inr (), s\<lparr>db := d', issued := issued s @ [(CursorExecute q vs, True)], cursor := r\<rparr>))"
  by (simp add: cursor_execute_def issue_def split: prod.split reply.split)

lemma cursor_execute_other:
  assumes "fst (eng (CursorExecute q vs) (db s)) = RaisesOther x"
  shows "fst (cursor_execute eng q vs s) = Inl (Other x)"
proof (cases "eng (CursorExecute q vs) (db s)")
  case (Pair r d')
  with assms show ?thesis by (simp add: cursor_execute_eq)
qed

lemma cursor_execute_raises:
  assumes "fst (eng (CursorExecute q vs) (db s)) = Raises e"
  shows "fst (cursor_execute eng q vs s) = Inl (Sqlite3Error e)"
proof (cases "eng (CursorExecute q vs) (db s)")
  case (Pair r d')
  with assms show ?thesis by (simp add: cursor_execute_eq)
qed

lemma get_on_failure:
  assumes "kwargs \<noteq> []"
    and "fst (eng (CursorExecute (get_query t kwargs) (map snd kwargs)) (db s)) = Raises e"
  shows "fst (get eng t kwargs s) = Inr None"
proof (cases "cursor_execute eng (get_query t kwargs) (map snd kwargs) s")
  case (Pair r s1)
  with cursor_execute_raises [of eng "get_query t kwargs" "map snd kwargs" s e] assms
  show ?thesis by (simp add: get_def)
qed

lemma filter_on_failure:
  assumes "fst (eng (CursorExecute (filter_query t kwargs) (map snd kwargs)) (db s)) = Raises e"
  shows "fst (filter_rows eng t kwargs s) = Inr []"
proof (cases "cursor_execute eng (filter_query t kwargs) (map snd kwargs) s")
  case (Pair r s1)
  with cursor_execute_raises [of eng "filter_query t kwargs" "map snd kwargs" s e] assms
  show ?thesis by (simp add: filter_rows_def)
qed

lemma all_on_failure:
  assumes "fst (eng (CursorExecute (all_query t) []) (db s)) = Raises e"
  shows "fst (all_rows eng t s) = Inr []"
proof (cases "cursor_execute eng (all_query t) [] s")
  case (Pair r s1)
  with cursor_execute_raises [of eng "all_query t" "[]" s e] assms
  show ?thesis by (simp add: all_rows_def)
qed

lemma exists_on_failure:
  assumes "kwargs \<noteq> []"
    and "fst (eng (CursorExecute (exists_query t kwargs) (map snd kwargs)) (db s)) = Raises e"
  shows "fst (exists eng t kwargs s) = Inr False"
proof (cases "cursor_execute eng (exists_query t kwargs) (map snd kwargs) s")
  case (Pair r s1)
  with cursor_execute_raises [of eng "exists_query t kwargs" "map snd kwargs" s e] assms
  show ?thesis by (simp add: exists_def)
qed

lemma count_on_failure:
  assumes "fst (eng (CursorExecute (count_query t kwargs) (map snd kwargs)) (db s)) = Raises e"
  shows "fst (count eng t kwargs s) = Inr (PInt 0)"
proof (cases "cursor_execute eng (count_query t kwargs) (map snd kwargs) s")
  case (Pair r s1)
  with cursor_execute_raises [of eng "count_query t kwargs" "map snd kwargs" s e] assms
  show ?thesis by (simp add: count_def)
qed

lemma get_table_schema_on_failure:
  assumes "fst (eng (CursorExecute (table_info_query t) []) (db s)) = Raises e"
  shows "fst (get_table_schema eng t s) = Inr []"
proof (cases "cursor_execute eng (table_info_query t) [] s")
  case (Pair r s1)
  with cursor_execute_raises [of eng "table_info_query t" "[]" s e] assms
  show ?thesis by (simp add: get_table_schema_def)
qed

text \<open>
  An exception of the statement that is not an \<^verbatim>\<open>sqlite3.Error\<close> passes the handler of
  every read and leaves it.
\<close>

lemma reads_let_other_exceptions_out:
  "(kwargs \<noteq> []
      \<and> fst (eng (CursorExecute (get_query t kwargs) (map snd kwargs)) (db s)) = RaisesOther x
      \<longrightarrow> fst (get eng t kwargs s) = Inl (Other x))
   \<and> (fst (eng (CursorExecute (filter_query t kwargs) (map snd kwargs)) (db s)) = RaisesOther x
      \<longrightarrow> fst (filter_rows eng t kwargs s) = Inl (Other x))
   \<and> (fst (eng (CursorExecute (all_query t) []) (db s)) = RaisesOther x
      \<longrightarrow> fst (all_rows eng t s) = Inl (Other x))
   \<and> (kwargs \<noteq> []
      \<and> fst (eng (CursorExecute (exists_query t kwargs) (map snd kwargs)) (db s)) = RaisesOther x
      \<longrightarrow> fst (exists eng t kwargs s) = Inl (Other x))
   \<and> (fst (eng (CursorExecute (count_query t kwargs) (map snd kwargs)) (db s)) = RaisesOther x
      \<longrightarrow> fst (count eng t kwargs s) = Inl (Other x))
   \<and> (fst (eng (CursorExecute (table_info_query t) []) (db s)) = RaisesOther x
      \<longrightarrow> fst (get_table_schema eng t s) = Inl (Other x))"
proof (intro conjI impI)
  assume a: "kwargs \<noteq> []
      \<and> fst (eng (CursorExecute (get_query t kwargs) (map snd kwargs)) (db s)) = RaisesOther x"
  obtain r s1 where c: "cursor_execute eng (get_query t kwargs) (map snd kwargs) s = (r, s1)"
    by (cases "cursor_execute eng (get_query t kwargs) (map snd kwargs) s")
  with a cursor_execute_other [of eng "get_query t kwargs" "map snd kwargs" s x]
  show "fst (get eng t kwargs s) = Inl (Other x)" by (simp add: get_def)
next
  assume a: "fst (eng (CursorExecute (filter_query t kwargs) (map snd kwargs)) (db s))
      = RaisesOther x"
  obtain r s1 where c: "cursor_execute eng (filter_query t kwargs) (map snd kwargs) s = (r, s1)"
    by (cases "cursor_execute eng (filter_query t kwargs) (map snd kwargs) s")
  with a cursor_execute_other [of eng "filter_query t kwargs" "map snd kwargs" s x]
  show "fst (filter_rows eng t kwargs s) = Inl (Other x)" by (simp add: filter_rows_def)
next
  assume a: "fst (eng (CursorExecute (all_query t) []) (db s)) = RaisesOther x"
  obtain r s1 where c: "cursor_execute eng (all_query t) [] s = (r, s1)"
    by (cases "cursor_execute eng (all_query t) [] s")
  with a cursor_execute_other [of eng "all_query t" "[]" s x]
  show "fst (all_rows eng t s) = Inl (Other x)" by (simp add: all_rows_def)
next
  assume a: "kwargs \<noteq> []
      \<and> fst (eng (CursorExecute (exists_query t kwargs) (map snd kwargs)) (db s)) = RaisesOther x"
  obtain r s1 where c: "cursor_execute eng (exists_query t kwargs) (map snd kwargs) s = (r, s1)"
    by (cases "cursor_execute eng (exists_query t kwargs) (map snd kwargs) s")
  with a cursor_execute_other [of eng "exists_query t kwargs" "map snd kwargs" s x]
  show "fst (exists eng t kwargs s) = Inl (Other x)" by (simp add: exists_def)
next
  assume a: "fst (eng (CursorExecute (count_query t kwargs) (map snd kwargs)) (db s))
      = RaisesOther x"
  obtain r s1 where c: "cursor_execute eng (count_query t kwargs) (map snd kwargs) s = (r, s1)"
    by (cases "cursor_execute eng (count_query t kwargs) (map snd kwargs) s")
  with a cursor_execute_other [of eng "count_query t kwargs" "map snd kwargs" s x]
  show "fst (count eng t kwargs s) = Inl (Other x)" by (simp add: count_def)
next
  assume a: "fst (eng (CursorExecute (table_info_query t) []) (db s)) = RaisesOther x"
  obtain r s1 where c: "cursor_execute eng (table_info_query t) [] s = (r, s1)"
    by (cases "cursor_execute eng (table_info_query t) [] s")
  with a cursor_execute_other [of eng "table_info_query t" "[]" s x]
  show "fst (get_table_schema eng t s) = Inl (Other x)" by (simp add: get_table_schema_def)
qed

text \<open>
  C9, as stated, at a filter value that is an \<^verbatim>\<open>int\<close> too large for 64 bits
  (\<^verbatim>\<open>age=2**63\<close>): binding it raises \<^verbatim>\<open>OverflowError\<close>, which is no
  \<^verbatim>\<open>sqlite3.Error\<close>, and \<^verbatim>\<open>get\<close>, \<^verbatim>\<open>filter\<close>, \<^verbatim>\<open>exists\<close> and \<^verbatim>\<open>count\<close> raise it
  instead of returning their empty result.
\<close>

theorem read_failure_outside_sqlite_propagates:
  "fst (get scripted ''test_table'' [(''age'', PInt 9223372036854775808)]
         (init [RaisesOther (OverflowError ''Python int too large to convert to SQLite INTEGER'')]))
     = Inl (Other (OverflowError ''Python int too large to convert to SQLite INTEGER''))
   \<and> fst (filter_rows scripted ''test_table'' [(''age'', PInt 9223372036854775808)]
         (init [RaisesOther (OverflowError ''Python int too large to convert to SQLite INTEGER'')]))
     = Inl (Other (OverflowError ''Python int too large to convert to SQLite INTEGER''))
   \<and> fst (exists scripted ''test_table'' [(''age'', PInt 9223372036854775808)]
         (init [RaisesOther (OverflowError ''Python int too large to convert to SQLite INTEGER'')]))
     = Inl (Other (OverflowError ''Python int too large to convert to SQLite INTEGER''))
   \<and> fst (count scripted ''test_table'' [(''age'', PInt 9223372036854775808)]
         (init [RaisesOther (OverflowError ''Python int too large to convert to SQLite INTEGER'')]))
     = Inl (Other (OverflowError ''Python int too large to convert to SQLite INTEGER''))"
  by (simp add: get_def filter_rows_def exists_def count_def prim_defs)

text \<open>
  C9, amended. When the statement of a read fails with an \<^verbatim>\<open>sqlite3.Error\<close>, the read
  returns its empty result instead: \<^verbatim>\<open>get\<close> gives \<^verbatim>\<open>None\<close>, \<^verbatim>\<open>filter\<close> and \<^verbatim>\<open>all\<close>
  the empty list, \<^verbatim>\<open>exists\<close> \<^verbatim>\<open>False\<close>, \<^verbatim>\<open>count\<close> 0 and \<^verbatim>\<open>get_table_schema\<close> the
  empty dict. This holds for every engine and every state of the object.
\<close>

theorem read_failures_become_empty_results:
  "(kwargs \<noteq> [] \<and> fst (eng (CursorExecute (get_query t kwargs) (map snd kwargs)) (db s)) = Raises e
      \<longrightarrow> fst (get eng t kwargs s) = Inr None)
   \<and> (fst (eng (CursorExecute (filter_query t kwargs) (map snd kwargs)) (db s)) = Raises e
      \<longrightarrow> fst (filter_rows eng t kwargs s) = Inr [])
   \<and> (fst (eng (CursorExecute (all_query t) []) (db s)) = Raises e
      \<longrightarrow> fst (all_rows eng t s) = Inr [])
   \<and> (kwargs \<noteq> [] \<and> fst (eng (CursorExecute (exists_query t kwargs) (map snd kwargs)) (db s)) = Raises e
      \<longrightarrow> fst (exists eng t kwargs s) = Inr False)
   \<and> (fst (eng (CursorExecute (count_query t kwargs) (map snd kwargs)) (db s)) = Raises e
      \<longrightarrow> fst (count eng t kwargs s) = Inr (PInt 0))
   \<and> (fst (eng (CursorExecute (table_info_query t) []) (db s)) = Raises e
      \<longrightarrow> fst (get_table_schema eng t s) = Inr [])"
proof (intro conjI impI)
  show "fst (get eng t kwargs s) = Inr None"
    if "kwargs \<noteq> [] \<and> fst (eng (CursorExecute (get_query t kwargs) (map snd kwargs)) (db s)) = Raises e"
    using that get_on_failure [of kwargs eng t s e] by simp
  show "fst (filter_rows eng t kwargs s) = Inr []"
    if "fst (eng (CursorExecute (filter_query t kwargs) (map snd kwargs)) (db s)) = Raises e"
    using that by (rule filter_on_failure)
  show "fst (all_rows eng t s) = Inr []"
    if "fst (eng (CursorExecute (all_query t) []) (db s)) = Raises e"
    using that by (rule all_on_failure)
  show "fst (exists eng t kwargs s) = Inr False"
    if "kwargs \<noteq> [] \<and> fst (eng (CursorExecute (exists_query t kwargs) (map snd kwargs)) (db s)) = Raises e"
    using that exists_on_failure [of kwargs eng t s e] by simp
  show "fst (count eng t kwargs s) = Inr (PInt 0)"
    if "fst (eng (CursorExecute (count_query t kwargs) (map snd kwargs)) (db s)) = Raises e"
    using that by (rule count_on_failure)
  show "fst (get_table_schema eng t s) = Inr []"
    if "fst (eng (CursorExecute (table_info_query t) []) (db s)) = Raises e"
    using that by (rule get_table_schema_on_failure)
qed

theorem read_failures_become_empty_results_witness:
  "fst (get scripted ''test_table'' [(''name'', PStr ''Alice'')] (init [Raises ''database is locked''])) = Inr None
   \<and> fst (filter_rows scripted ''test_table'' [(''name'', PStr ''Alice'')] (init [Raises ''database is locked''])) = Inr []
   \<and> fst (all_rows scripted ''test_table'' (init [Raises ''database is locked''])) = Inr []
   \<and> fst (exists scripted ''test_table'' [(''name'', PStr ''Alice'')] (init [Raises ''database is locked''])) = Inr False
   \<and> fst (count scripted ''test_table'' [(''name'', PStr ''Alice'')] (init [Raises ''database is locked''])) = Inr (PInt 0)
   \<and> fst (get_table_schema scripted ''test_table'' (init [Raises ''database is locked''])) = Inr []"
proof -
  have db: "db (init [Raises ''database is locked'']) = [Raises ''database is locked'']"
    by (simp add: init_def)
  show ?thesis
    using read_failures_become_empty_results
      [of "[(''name'', PStr ''Alice'')]" scripted "''test_table''"
          "init [Raises ''database is locked'']" "''database is locked''"]
    by (simp only: db scripted.simps fst_conv list.distinct simp_thms)
qed

section \<open>Explicit commit\<close>

subsection \<open>What one connection call does\<close>

lemma connection_call_closed:
  "connection s = None \<Longrightarrow>
   connection_call eng c s =
     (Inl (AttributeError (no_attribute (method_name c))), s)"
  by (simp add: connection_call_def)

lemma connection_call_raises:
  "connection s = Some k \<Longrightarrow> eng c (db s) = (Raises e, d') \<Longrightarrow>
   connection_call eng c s =
     (Inl (Sqlite3Error e), s\<lparr>db := d', issued := issued s @ [(c, False)]\<rparr>)"
  by (simp add: connection_call_def issue_def)

lemma connection_call_other:
  "connection s = Some k \<Longrightarrow> eng c (db s) = (RaisesOther x, d') \<Longrightarrow>
   connection_call eng c s =
     (Inl (Other x), s\<lparr>db := d', issued := issued s @ [(c, False)]\<rparr>)"
  by (simp add: connection_call_def issue_def)

lemma connection_call_returns:
  "connection s = Some k \<Longrightarrow> eng c (db s) = (Returns r, d') \<Longrightarrow>
   connection_call eng c s = (Inr (), s\<lparr>db := d', issued := issued s @ [(c, True)]\<rparr>)"
  by (simp add: connection_call_def issue_def)

text \<open>
  C8, as stated, at an engine whose commit and whose rollback both raise: the rollback's
  error leaves \<^verbatim>\<open>commit_transaction\<close>, the line that resets the flag is not reached,
  and the flag stays set.
\<close>

theorem commit_failure_with_failing_rollback:
  "fst (commit_transaction scripted
         (snd (begin_transaction scripted
                (init [Returns ok_result, Raises ''disk I/O error'', Raises ''disk I/O error'']))))
     = Inl (Sqlite3Error ''disk I/O error'')
   \<and> in_transaction (snd (commit_transaction scripted
         (snd (begin_transaction scripted
                (init [Returns ok_result, Raises ''disk I/O error'', Raises ''disk I/O error''])))))"
  by (simp add: prim_defs)

text \<open>
  C8, amended. On an open connection \<^verbatim>\<open>commit_transaction\<close> clears the flag when the
  engine's commit returns; when the commit raises and the rollback issued after it
  returns, it clears the flag and raises the commit failure carrying the engine's
  message.
\<close>

theorem commit_transaction_resets_flag:
  assumes "connection s = Some k"
  shows "(eng ConnCommit (db s) = (Returns r, d1) \<longrightarrow>
            commit_transaction eng s =
              (Inr (), s\<lparr>db := d1, issued := issued s @ [(ConnCommit, True)],
                         in_transaction := False\<rparr>))
       \<and> (eng ConnCommit (db s) = (Raises e, d1) \<and> eng ConnRollback d1 = (Returns r, d2) \<longrightarrow>
            commit_transaction eng s =
              (Inl (PyException (''Transaction commit failed: '' @ e)),
               s\<lparr>db := d2, issued := issued s @ [(ConnCommit, False), (ConnRollback, True)],
                  in_transaction := False\<rparr>))"
  using assms by (simp add: commit_transaction_def connection_call_def issue_def)

theorem commit_transaction_resets_flag_witness:
  "commit_transaction scripted (snd (begin_transaction scripted (init [])))
     = (Inr (), \<lparr>connection = Some Connection, cursor = no_result, in_transaction = False,
                 db = [], issued = [(begin_call, True), (ConnCommit, True)]\<rparr>)
   \<and> commit_transaction scripted
        (snd (begin_transaction scripted (init [Returns ok_result, Raises ''database is locked''])))
     = (Inl (PyException ''Transaction commit failed: database is locked''),
        \<lparr>connection = Some Connection, cursor = no_result, in_transaction = False,
          db = [], issued = [(begin_call, True), (ConnCommit, False), (ConnRollback, True)]\<rparr>)"
proof -
  have s1: "snd (begin_transaction scripted (init [])) =
      \<lparr>connection = Some Connection, cursor = no_result, in_transaction = True,
       db = [], issued = [(begin_call, True)]\<rparr>"
    by (simp add: begin_transaction_def connection_call_def issue_def init_def begin_call_def)
  have s2: "snd (begin_transaction scripted (init [Returns ok_result, Raises ''database is locked''])) =
      \<lparr>connection = Some Connection, cursor = no_result, in_transaction = True,
       db = [Raises ''database is locked''], issued = [(begin_call, True)]\<rparr>"
    by (simp add: begin_transaction_def connection_call_def issue_def init_def begin_call_def)
  show ?thesis
    unfolding s1 s2
    using commit_transaction_resets_flag
      [of "\<lparr>connection = Some Connection, cursor = no_result, in_transaction = True,
            db = [], issued = [(begin_call, True)]\<rparr>" Connection scripted ok_result "[]"]
      commit_transaction_resets_flag
      [of "\<lparr>connection = Some Connection, cursor = no_result, in_transaction = True,
            db = [Raises ''database is locked''], issued = [(begin_call, True)]\<rparr>" Connection
          scripted ok_result "[]" "''database is locked''" "[]"]
    by simp
qed

section \<open>exists and get\<close>

subsection \<open>What the reads return, from the engine's reply\<close>



lemma read_issues_one_statement:
  "issued (snd (cursor_execute eng q vs s)) =
     issued s @ [(CursorExecute q vs, returned (fst (eng (CursorExecute q vs) (db s))))]"
  by (simp add: cursor_execute_eq split: prod.split reply.split)







section \<open>After close\<close>













section \<open>The transaction wrapper of the mutating operations\<close>

subsection \<open>The paths through the try block\<close>

lemma cursor_execute_raises_eq:
  "eng (CursorExecute q vs) (db s) = (Raises e, d') \<Longrightarrow>
   cursor_execute eng q vs s =
     (Inl (Sqlite3Error e), s\<lparr>db := d', issued := issued s @ [(CursorExecute q vs, False)]\<rparr>)"
  by (simp add: cursor_execute_eq)

lemma cursor_execute_returns_eq:
  "eng (CursorExecute q vs) (db s) = (Returns r, d') \<Longrightarrow>
   cursor_execute eng q vs s =
     (Inr (), s\<lparr>db := d', issued := issued s @ [(CursorExecute q vs, True)], cursor := r\<rparr>)"
  by (simp add: cursor_execute_eq)

lemma cursor_execute_other_eq:
  "eng (CursorExecute q vs) (db s) = (RaisesOther x, d') \<Longrightarrow>
   cursor_execute eng q vs s =
     (Inl (Other x), s\<lparr>db := d', issued := issued s @ [(CursorExecute q vs, False)]\<rparr>)"
  by (simp add: cursor_execute_eq)

lemma begin_transaction_raises:
  "connection s = Some k \<Longrightarrow> eng begin_call (db s) = (Raises e, d') \<Longrightarrow>
   begin_transaction eng s =
     (Inl (PyException (''Transaction start failed: '' @ e)),
      s\<lparr>db := d', issued := issued s @ [(begin_call, False)]\<rparr>)"
  by (simp add: begin_transaction_def connection_call_def issue_def begin_call_def)

lemma begin_transaction_returns:
  "connection s = Some k \<Longrightarrow> eng begin_call (db s) = (Returns r, d') \<Longrightarrow>
   begin_transaction eng s =
     (Inr (), s\<lparr>db := d', issued := issued s @ [(begin_call, True)], in_transaction := True\<rparr>)"
  by (simp add: begin_transaction_def connection_call_def issue_def begin_call_def)

lemma run_begin_fails:
  assumes "connection s = Some k" and "\<not> in_transaction s"
    and "eng begin_call (db s) = (Raises e, d0)"
  shows "run_in_transaction eng q vs s =
     (Inl (PyException (''Transaction start failed: '' @ e)),
      s\<lparr>db := d0, issued := issued s @ [(begin_call, False)]\<rparr>)"
  using assms by (simp add: run_in_transaction_def begin_transaction_raises)

lemma run_statement_fails_own:
  assumes "connection s = Some k" and "\<not> in_transaction s"
    and "eng begin_call (db s) = (Returns r0, d0)"
    and "eng (CursorExecute q vs) d0 = (Raises e, d1)"
  shows "run_in_transaction eng q vs s =
     (Inl (Sqlite3Error e),
      s\<lparr>db := d1, issued := issued s @ [(begin_call, True), (CursorExecute q vs, False)],
         in_transaction := True\<rparr>)"
  using assms
  by (simp add: run_in_transaction_def begin_transaction_returns cursor_execute_raises_eq)

lemma run_statement_fails_outer:
  assumes "in_transaction s"
    and "eng (CursorExecute q vs) (db s) = (Raises e, d1)"
  shows "run_in_transaction eng q vs s =
     (Inl (Sqlite3Error e),
      s\<lparr>db := d1, issued := issued s @ [(CursorExecute q vs, False)]\<rparr>)"
  using assms by (simp add: run_in_transaction_def cursor_execute_raises_eq)

lemma run_statement_other_own:
  assumes "connection s = Some k" and "\<not> in_transaction s"
    and "eng begin_call (db s) = (Returns r0, d0)"
    and "eng (CursorExecute q vs) d0 = (RaisesOther x, d1)"
  shows "run_in_transaction eng q vs s =
     (Inl (Other x),
      s\<lparr>db := d1, issued := issued s @ [(begin_call, True), (CursorExecute q vs, False)],
         in_transaction := True\<rparr>)"
  using assms
  by (simp add: run_in_transaction_def begin_transaction_returns cursor_execute_other_eq)

lemma run_statement_other_outer:
  assumes "in_transaction s"
    and "eng (CursorExecute q vs) (db s) = (RaisesOther x, d1)"
  shows "run_in_transaction eng q vs s =
     (Inl (Other x),
      s\<lparr>db := d1, issued := issued s @ [(CursorExecute q vs, False)]\<rparr>)"
  using assms by (simp add: run_in_transaction_def cursor_execute_other_eq)

lemma run_commits_own:
  assumes "connection s = Some k" and "\<not> in_transaction s"
    and "eng begin_call (db s) = (Returns r0, d0)"
    and "eng (CursorExecute q vs) d0 = (Returns r1, d1)"
    and "eng ConnCommit d1 = (Returns r2, d2)"
  shows "run_in_transaction eng q vs s =
     (Inr (),
      s\<lparr>db := d2,
         issued := issued s @ [(begin_call, True), (CursorExecute q vs, True), (ConnCommit, True)],
         cursor := r1, in_transaction := False\<rparr>)"
  using assms
  by (simp add: run_in_transaction_def begin_transaction_returns cursor_execute_returns_eq
      commit_transaction_def connection_call_def issue_def)

lemma run_leaves_outer:
  assumes "in_transaction s"
    and "eng (CursorExecute q vs) (db s) = (Returns r1, d1)"
  shows "run_in_transaction eng q vs s =
     (Inr (), s\<lparr>db := d1, issued := issued s @ [(CursorExecute q vs, True)], cursor := r1\<rparr>)"
  using assms by (simp add: run_in_transaction_def cursor_execute_returns_eq)

lemma get_table_schema_keeps:
  assumes "get_table_schema eng t s = (r, s0)"
  shows "connection s0 = connection s \<and> in_transaction s0 = in_transaction s"
  using assms
  by (auto simp: get_table_schema_def cursor_execute_eq fetchall_def
      split: prod.splits reply.splits sum.splits)


lemma update_handler_returns:
  "connection s = Some k \<Longrightarrow> eng ConnRollback (db s) = (Returns r, d') \<Longrightarrow>
   update_handler eng e s =
     (Inl (PyException (''Update failed: '' @ e)),
      s\<lparr>db := d', issued := issued s @ [(ConnRollback, True)]\<rparr>)"
  by (simp add: update_handler_def connection_call_returns)

lemma delete_handler_returns:
  "connection s = Some k \<Longrightarrow> eng ConnRollback (db s) = (Returns r, d') \<Longrightarrow>
   delete_handler eng e s =
     (Inl (PyException (''Deletion failed: '' @ e)),
      s\<lparr>db := d', issued := issued s @ [(ConnRollback, True)]\<rparr>)"
  by (simp add: delete_handler_def connection_call_returns)

lemma create_handler_returns:
  "connection s = Some k \<Longrightarrow> in_transaction s \<Longrightarrow>
   eng ConnRollback (db s) = (Returns r, d') \<Longrightarrow>
   create_handler eng e s =
     (Inl (PyException (''Insertion failed: '' @ e)),
      s\<lparr>db := d', issued := issued s @ [(ConnRollback, True)], in_transaction := False\<rparr>)"
  by (simp add: create_handler_def rollback_transaction_def connection_call_returns)

lemma update_failure:
  assumes "filters \<noteq> []" and "kwargs \<noteq> []" and "connection s = Some k"
  shows "(in_transaction s
          \<and> eng (CursorExecute (update_query t filters kwargs)
                   (map snd kwargs @ map snd filters)) (db s) = (Raises e, d1)
          \<and> eng ConnRollback d1 = (Returns r, d2) \<longrightarrow>
          update eng t filters kwargs s =
            (Inl (PyException (''Update failed: '' @ e)),
             s\<lparr>db := d2,
                issued := issued s @
                  [(CursorExecute (update_query t filters kwargs)
                      (map snd kwargs @ map snd filters), False),
                   (ConnRollback, True)]\<rparr>))
       \<and> (\<not> in_transaction s \<and> eng begin_call (db s) = (Returns r0, d0)
          \<and> eng (CursorExecute (update_query t filters kwargs)
                   (map snd kwargs @ map snd filters)) d0 = (Raises e, d1)
          \<and> eng ConnRollback d1 = (Returns r, d2) \<longrightarrow>
          update eng t filters kwargs s =
            (Inl (PyException (''Update failed: '' @ e)),
             s\<lparr>db := d2,
                issued := issued s @
                  [(begin_call, True),
                   (CursorExecute (update_query t filters kwargs)
                      (map snd kwargs @ map snd filters), False),
                   (ConnRollback, True)],
                in_transaction := True\<rparr>))
       \<and> (\<not> in_transaction s \<and> eng begin_call (db s) = (Raises e, d0) \<longrightarrow>
          update eng t filters kwargs s =
            (Inl (PyException (''Transaction start failed: '' @ e)),
             s\<lparr>db := d0, issued := issued s @ [(begin_call, False)]\<rparr>))"
  using assms
  by (simp add: update_def run_statement_fails_outer run_statement_fails_own run_begin_fails
      update_handler_returns)

lemma delete_failure:
  assumes "connection s = Some k"
  shows "(in_transaction s
          \<and> eng (CursorExecute (delete_query t kwargs) []) (db s) = (Raises e, d1)
          \<and> eng ConnRollback d1 = (Returns r, d2) \<longrightarrow>
          delete eng t kwargs s =
            (Inl (PyException (''Deletion failed: '' @ e)),
             s\<lparr>db := d2,
                issued := issued s @
                  [(CursorExecute (delete_query t kwargs) [], False), (ConnRollback, True)]\<rparr>))
       \<and> (\<not> in_transaction s \<and> eng begin_call (db s) = (Returns r0, d0)
          \<and> eng (CursorExecute (delete_query t kwargs) []) d0 = (Raises e, d1)
          \<and> eng ConnRollback d1 = (Returns r, d2) \<longrightarrow>
          delete eng t kwargs s =
            (Inl (PyException (''Deletion failed: '' @ e)),
             s\<lparr>db := d2,
                issued := issued s @
                  [(begin_call, True),
                   (CursorExecute (delete_query t kwargs) [], False),
                   (ConnRollback, True)],
                in_transaction := True\<rparr>))
       \<and> (\<not> in_transaction s \<and> eng begin_call (db s) = (Raises e, d0) \<longrightarrow>
          delete eng t kwargs s =
            (Inl (PyException (''Transaction start failed: '' @ e)),
             s\<lparr>db := d0, issued := issued s @ [(begin_call, False)]\<rparr>))"
  using assms
  by (simp add: delete_def run_statement_fails_outer run_statement_fails_own run_begin_fails
      delete_handler_returns)

lemma create_validated:
  assumes "kwargs \<noteq> []" and "get_table_schema eng t s = (Inr schema, s0)"
    and "schema \<noteq> []" and "check_columns t schema kwargs = None"
  shows "create eng t kwargs s =
     (case run_in_transaction eng (insert_query t kwargs) (map snd kwargs) s0 of
        (Inr u, s1) \<Rightarrow> (Inr (lastrowid (cursor s1)), s1)
      | (Inl x, s1) \<Rightarrow>
          (case sqlite_msg x of
             Some e \<Rightarrow> create_handler eng e s1
           | None \<Rightarrow> (Inl x, s1)))"
  using assms by (simp add: create_def)

lemma create_failure:
  assumes "kwargs \<noteq> []" and "get_table_schema eng t s = (Inr schema, s0)"
    and "schema \<noteq> []" and "check_columns t schema kwargs = None"
    and "connection s = Some k"
  shows "(in_transaction s
          \<and> eng (CursorExecute (insert_query t kwargs) (map snd kwargs)) (db s0) = (Raises e, d1)
          \<and> eng ConnRollback d1 = (Returns r, d2) \<longrightarrow>
          create eng t kwargs s =
            (Inl (PyException (''Insertion failed: '' @ e)),
             s0\<lparr>db := d2,
                 issued := issued s0 @
                   [(CursorExecute (insert_query t kwargs) (map snd kwargs), False),
                    (ConnRollback, True)],
                 in_transaction := False\<rparr>))
       \<and> (\<not> in_transaction s \<and> eng begin_call (db s0) = (Returns r0, d0)
          \<and> eng (CursorExecute (insert_query t kwargs) (map snd kwargs)) d0 = (Raises e, d1)
          \<and> eng ConnRollback d1 = (Returns r, d2) \<longrightarrow>
          create eng t kwargs s =
            (Inl (PyException (''Insertion failed: '' @ e)),
             s0\<lparr>db := d2,
                 issued := issued s0 @
                   [(begin_call, True),
                    (CursorExecute (insert_query t kwargs) (map snd kwargs), False),
                    (ConnRollback, True)],
                 in_transaction := False\<rparr>))
       \<and> (\<not> in_transaction s \<and> eng begin_call (db s0) = (Raises e, d0) \<longrightarrow>
          create eng t kwargs s =
            (Inl (PyException (''Transaction start failed: '' @ e)),
             s0\<lparr>db := d0, issued := issued s0 @ [(begin_call, False)]\<rparr>))"
proof -
  have k: "connection s0 = Some k" and f: "in_transaction s0 = in_transaction s"
    using get_table_schema_keeps [OF assms(2)] assms(5) by simp_all
  show ?thesis
    unfolding create_validated [OF assms(1-4)]
    using k f
    by (simp add: run_statement_fails_outer run_statement_fails_own run_begin_fails
        create_handler_returns)
qed

text \<open>
  A statement that raises something else than \<^verbatim>\<open>sqlite3.Error\<close>: the handler does not
  apply, the exception leaves the operation, no rollback is issued and the flag stays as
  the \<^verbatim>\<open>try\<close> block left it.
\<close>

lemma update_other:
  assumes "filters \<noteq> []" and "kwargs \<noteq> []" and "connection s = Some k"
  shows "(in_transaction s
          \<and> eng (CursorExecute (update_query t filters kwargs)
                   (map snd kwargs @ map snd filters)) (db s) = (RaisesOther x, d1) \<longrightarrow>
          update eng t filters kwargs s =
            (Inl (Other x),
             s\<lparr>db := d1,
                issued := issued s @
                  [(CursorExecute (update_query t filters kwargs)
                      (map snd kwargs @ map snd filters), False)]\<rparr>))
       \<and> (\<not> in_transaction s \<and> eng begin_call (db s) = (Returns r0, d0)
          \<and> eng (CursorExecute (update_query t filters kwargs)
                   (map snd kwargs @ map snd filters)) d0 = (RaisesOther x, d1) \<longrightarrow>
          update eng t filters kwargs s =
            (Inl (Other x),
             s\<lparr>db := d1,
                issued := issued s @
                  [(begin_call, True),
                   (CursorExecute (update_query t filters kwargs)
                      (map snd kwargs @ map snd filters), False)],
                in_transaction := True\<rparr>))"
  using assms
  by (simp add: update_def run_statement_other_outer run_statement_other_own)

lemma delete_other:
  assumes "connection s = Some k"
  shows "(in_transaction s
          \<and> eng (CursorExecute (delete_query t kwargs) []) (db s) = (RaisesOther x, d1) \<longrightarrow>
          delete eng t kwargs s =
            (Inl (Other x),
             s\<lparr>db := d1,
                issued := issued s @ [(CursorExecute (delete_query t kwargs) [], False)]\<rparr>))
       \<and> (\<not> in_transaction s \<and> eng begin_call (db s) = (Returns r0, d0)
          \<and> eng (CursorExecute (delete_query t kwargs) []) d0 = (RaisesOther x, d1) \<longrightarrow>
          delete eng t kwargs s =
            (Inl (Other x),
             s\<lparr>db := d1,
                issued := issued s @
                  [(begin_call, True), (CursorExecute (delete_query t kwargs) [], False)],
                in_transaction := True\<rparr>))"
  using assms
  by (simp add: delete_def run_statement_other_outer run_statement_other_own)

lemma create_other:
  assumes "kwargs \<noteq> []" and "get_table_schema eng t s = (Inr schema, s0)"
    and "schema \<noteq> []" and "check_columns t schema kwargs = None"
    and "connection s = Some k"
  shows "(in_transaction s
          \<and> eng (CursorExecute (insert_query t kwargs) (map snd kwargs)) (db s0)
              = (RaisesOther x, d1) \<longrightarrow>
          create eng t kwargs s =
            (Inl (Other x),
             s0\<lparr>db := d1,
                 issued := issued s0 @
                   [(CursorExecute (insert_query t kwargs) (map snd kwargs), False)]\<rparr>))
       \<and> (\<not> in_transaction s \<and> eng begin_call (db s0) = (Returns r0, d0)
          \<and> eng (CursorExecute (insert_query t kwargs) (map snd kwargs)) d0
              = (RaisesOther x, d1) \<longrightarrow>
          create eng t kwargs s =
            (Inl (Other x),
             s0\<lparr>db := d1,
                 issued := issued s0 @
                   [(begin_call, True),
                    (CursorExecute (insert_query t kwargs) (map snd kwargs), False)],
                 in_transaction := True\<rparr>))"
proof -
  have k: "connection s0 = Some k" and f: "in_transaction s0 = in_transaction s"
    using get_table_schema_keeps [OF assms(2)] assms(5) by simp_all
  show ?thesis
    unfolding create_validated [OF assms(1-4)]
    using k f
    by (simp add: run_statement_other_outer run_statement_other_own)
qed

subsection \<open>Concrete stores\<close>

lemma started_eq:
  "started script =
     \<lparr>connection = Some Connection, cursor = no_result, in_transaction = True,
      db = script, issued = [(begin_call, True)]\<rparr>"
  by (simp add: started_def begin_transaction_def connection_call_def issue_def init_def
      begin_call_def)

lemma test_table_schema:
  "get_table_schema scripted ''test_table'' (s\<lparr>db := Returns test_table_info # script\<rparr>) =
     (Inr [(PStr ''id'', PStr ''INTEGER''), (PStr ''name'', PStr ''TEXT''),
           (PStr ''age'', PStr ''INTEGER'')],
      s\<lparr>db := script, issued := issued s @ [(schema_call ''test_table'', True)],
         cursor := test_table_info\<lparr>rows := []\<rparr>\<rparr>)"
  by (simp add: get_table_schema_def cursor_execute_eq fetchall_def test_table_info_def
      schema_call_def)

lemma alice_columns_ok:
  "check_columns ''test_table''
     [(PStr ''id'', PStr ''INTEGER''), (PStr ''name'', PStr ''TEXT''),
      (PStr ''age'', PStr ''INTEGER'')]
     [(''name'', PStr ''Alice''), (''age'', PInt 30)] = None"
  by (simp add: upper_def upper_char_def)

subsection \<open>A statement that fails\<close>

text \<open>
  C3, as stated, at an engine whose rollback raises too: \<^verbatim>\<open>update\<close> lets the rollback's
  own \<^verbatim>\<open>sqlite3.Error\<close> out, and \<^verbatim>\<open>create\<close> raises the rollback failure; neither is the
  storage-operation error carrying the cause of the failed statement. And at a value
  that the engine cannot bind, an \<^verbatim>\<open>int\<close> of 64 bits and more: the \<^verbatim>\<open>OverflowError\<close> of
  the statement is no \<^verbatim>\<open>sqlite3.Error\<close>, it leaves \<^verbatim>\<open>update\<close> as it is, no rollback is
  issued and the transaction that \<^verbatim>\<open>update\<close> began stays open.
\<close>

theorem statement_failure_counterexample:
  "fst (update scripted ''test_table'' [(''name'', PStr ''Alice'')] [(''agee'', PInt 31)]
         (init [Returns ok_result, Raises ''no such column: agee'', Raises ''disk I/O error'']))
     = Inl (Sqlite3Error ''disk I/O error'')
   \<and> fst (create scripted ''test_table'' [(''name'', PStr ''Alice''), (''age'', PInt 30)]
         (init [Returns test_table_info, Returns ok_result, Raises ''database is locked'',
                Raises ''disk I/O error'']))
     = Inl (PyException ''Transaction rollback failed: disk I/O error'')
   \<and> update scripted ''test_table'' [(''name'', PStr ''Alice'')]
         [(''age'', PInt 9223372036854775808)]
         (init [Returns ok_result,
                RaisesOther (OverflowError ''Python int too large to convert to SQLite INTEGER'')])
     = (Inl (Other (OverflowError ''Python int too large to convert to SQLite INTEGER'')),
        \<lparr>connection = Some Connection, cursor = no_result, in_transaction = True, db = [],
         issued = [(ConnExecute ''BEGIN TRANSACTION;'', True),
                   (CursorExecute ''UPDATE test_table SET age=? WHERE name=?;''
                      [PInt 9223372036854775808, PStr ''Alice''], False)]\<rparr>)"
  by (simp add: update_def update_query_def update_handler_def create_def create_handler_def
      get_table_schema_def table_info_query_def insert_query_def test_table_info_def
      upper_def upper_char_def prim_defs)

text \<open>
  C3, amended. On an open connection, when the statement of a mutating operation fails
  with an \<^verbatim>\<open>sqlite3.Error\<close> (the flag is then set, by the caller or by the operation's own
  begin), the operation issues a rollback and, when that rollback returns, raises its
  failure carrying the engine's message; \<^verbatim>\<open>create\<close> clears the flag on the way,
  \<^verbatim>\<open>update\<close> and \<^verbatim>\<open>delete\<close> leave it. When the operation's own begin fails with an
  \<^verbatim>\<open>sqlite3.Error\<close>, no transaction was opened: the statement is not executed, no
  rollback is issued and the begin failure is raised. When the statement raises an
  exception that is not an \<^verbatim>\<open>sqlite3.Error\<close>, that exception leaves the operation as it
  is: no rollback is issued, and a transaction that the operation began itself stays
  open with the flag set.
\<close>

theorem statement_failure_rolls_back:
  assumes "connection s = Some k"
  shows
    "(filters \<noteq> [] \<and> kwargs \<noteq> [] \<and> in_transaction s
        \<and> eng (update_call t filters kwargs) (db s) = (Raises e, d1)
        \<and> eng ConnRollback d1 = (Returns r, d2) \<longrightarrow>
      update eng t filters kwargs s =
        (Inl (PyException (''Update failed: '' @ e)),
         s\<lparr>db := d2,
            issued := issued s @ [(update_call t filters kwargs, False), (ConnRollback, True)]\<rparr>))
   \<and> (filters \<noteq> [] \<and> kwargs \<noteq> [] \<and> \<not> in_transaction s
        \<and> eng begin_call (db s) = (Returns r0, d0)
        \<and> eng (update_call t filters kwargs) d0 = (Raises e, d1)
        \<and> eng ConnRollback d1 = (Returns r, d2) \<longrightarrow>
      update eng t filters kwargs s =
        (Inl (PyException (''Update failed: '' @ e)),
         s\<lparr>db := d2,
            issued := issued s @ [(begin_call, True), (update_call t filters kwargs, False),
                                  (ConnRollback, True)],
            in_transaction := True\<rparr>))
   \<and> (filters \<noteq> [] \<and> kwargs \<noteq> [] \<and> \<not> in_transaction s
        \<and> eng begin_call (db s) = (Raises e, d0) \<longrightarrow>
      update eng t filters kwargs s =
        (Inl (PyException (''Transaction start failed: '' @ e)),
         s\<lparr>db := d0, issued := issued s @ [(begin_call, False)]\<rparr>))
   \<and> (in_transaction s
        \<and> eng (delete_call t kwargs) (db s) = (Raises e, d1)
        \<and> eng ConnRollback d1 = (Returns r, d2) \<longrightarrow>
      delete eng t kwargs s =
        (Inl (PyException (''Deletion failed: '' @ e)),
         s\<lparr>db := d2,
            issued := issued s @ [(delete_call t kwargs, False), (ConnRollback, True)]\<rparr>))
   \<and> (\<not> in_transaction s
        \<and> eng begin_call (db s) = (Returns r0, d0)
        \<and> eng (delete_call t kwargs) d0 = (Raises e, d1)
        \<and> eng ConnRollback d1 = (Returns r, d2) \<longrightarrow>
      delete eng t kwargs s =
        (Inl (PyException (''Deletion failed: '' @ e)),
         s\<lparr>db := d2,
            issued := issued s @ [(begin_call, True), (delete_call t kwargs, False),
                                  (ConnRollback, True)],
            in_transaction := True\<rparr>))
   \<and> (\<not> in_transaction s \<and> eng begin_call (db s) = (Raises e, d0) \<longrightarrow>
      delete eng t kwargs s =
        (Inl (PyException (''Transaction start failed: '' @ e)),
         s\<lparr>db := d0, issued := issued s @ [(begin_call, False)]\<rparr>))
   \<and> (kwargs \<noteq> [] \<and> get_table_schema eng t s = (Inr schema, s0) \<and> schema \<noteq> []
        \<and> check_columns t schema kwargs = None \<and> in_transaction s
        \<and> eng (insert_call t kwargs) (db s0) = (Raises e, d1)
        \<and> eng ConnRollback d1 = (Returns r, d2) \<longrightarrow>
      create eng t kwargs s =
        (Inl (PyException (''Insertion failed: '' @ e)),
         s0\<lparr>db := d2,
             issued := issued s0 @ [(insert_call t kwargs, False), (ConnRollback, True)],
             in_transaction := False\<rparr>))
   \<and> (kwargs \<noteq> [] \<and> get_table_schema eng t s = (Inr schema, s0) \<and> schema \<noteq> []
        \<and> check_columns t schema kwargs = None \<and> \<not> in_transaction s
        \<and> eng begin_call (db s0) = (Returns r0, d0)
        \<and> eng (insert_call t kwargs) d0 = (Raises e, d1)
        \<and> eng ConnRollback d1 = (Returns r, d2) \<longrightarrow>
      create eng t kwargs s =
        (Inl (PyException (''Insertion failed: '' @ e)),
         s0\<lparr>db := d2,
             issued := issued s0 @ [(begin_call, True), (insert_call t kwargs, False),
                                    (ConnRollback, True)],
             in_transaction := False\<rparr>))
   \<and> (kwargs \<noteq> [] \<and> get_table_schema eng t s = (Inr schema, s0) \<and> schema \<noteq> []
        \<and> check_columns t schema kwargs = None \<and> \<not> in_transaction s
        \<and> eng begin_call (db s0) = (Raises e, d0) \<longrightarrow>
      create eng t kwargs s =
        (Inl (PyException (''Transaction start failed: '' @ e)),
         s0\<lparr>db := d0, issued := issued s0 @ [(begin_call, False)]\<rparr>))
   \<and> (filters \<noteq> [] \<and> kwargs \<noteq> [] \<and> in_transaction s
        \<and> eng (update_call t filters kwargs) (db s) = (RaisesOther x, d1) \<longrightarrow>
      update eng t filters kwargs s =
        (Inl (Other x),
         s\<lparr>db := d1, issued := issued s @ [(update_call t filters kwargs, False)]\<rparr>))
   \<and> (filters \<noteq> [] \<and> kwargs \<noteq> [] \<and> \<not> in_transaction s
        \<and> eng begin_call (db s) = (Returns r0, d0)
        \<and> eng (update_call t filters kwargs) d0 = (RaisesOther x, d1) \<longrightarrow>
      update eng t filters kwargs s =
        (Inl (Other x),
         s\<lparr>db := d1,
            issued := issued s @ [(begin_call, True), (update_call t filters kwargs, False)],
            in_transaction := True\<rparr>))
   \<and> (in_transaction s
        \<and> eng (delete_call t kwargs) (db s) = (RaisesOther x, d1) \<longrightarrow>
      delete eng t kwargs s =
        (Inl (Other x),
         s\<lparr>db := d1, issued := issued s @ [(delete_call t kwargs, False)]\<rparr>))
   \<and> (\<not> in_transaction s
        \<and> eng begin_call (db s) = (Returns r0, d0)
        \<and> eng (delete_call t kwargs) d0 = (RaisesOther x, d1) \<longrightarrow>
      delete eng t kwargs s =
        (Inl (Other x),
         s\<lparr>db := d1,
            issued := issued s @ [(begin_call, True), (delete_call t kwargs, False)],
            in_transaction := True\<rparr>))
   \<and> (kwargs \<noteq> [] \<and> get_table_schema eng t s = (Inr schema, s0) \<and> schema \<noteq> []
        \<and> check_columns t schema kwargs = None \<and> in_transaction s
        \<and> eng (insert_call t kwargs) (db s0) = (RaisesOther x, d1) \<longrightarrow>
      create eng t kwargs s =
        (Inl (Other x),
         s0\<lparr>db := d1, issued := issued s0 @ [(insert_call t kwargs, False)]\<rparr>))
   \<and> (kwargs \<noteq> [] \<and> get_table_schema eng t s = (Inr schema, s0) \<and> schema \<noteq> []
        \<and> check_columns t schema kwargs = None \<and> \<not> in_transaction s
        \<and> eng begin_call (db s0) = (Returns r0, d0)
        \<and> eng (insert_call t kwargs) d0 = (RaisesOther x, d1) \<longrightarrow>
      create eng t kwargs s =
        (Inl (Other x),
         s0\<lparr>db := d1,
             issued := issued s0 @ [(begin_call, True), (insert_call t kwargs, False)],
             in_transaction := True\<rparr>))"
proof -
  note upd = update_failure [of filters kwargs s k eng t e d1 r d2 r0 d0]
  note del = delete_failure [of s k eng t kwargs e d1 r d2 r0 d0]
  note cre = create_failure [of kwargs eng t s schema s0 k e d1 r d2 r0 d0]
  note upo = update_other [of filters kwargs s k eng t x d1 r0 d0]
  note deo = delete_other [of s k eng t kwargs x d1 r0 d0]
  note cro = create_other [of kwargs eng t s schema s0 k x d1 r0 d0]
  show ?thesis
    using assms upd del cre upo deo cro
    unfolding update_call_def delete_call_def insert_call_def
    by (intro conjI impI) simp_all
qed


theorem statement_failure_rolls_back_witness:
  "fst (update scripted ''test_table'' [(''name'', PStr ''Alice'')] [(''agee'', PInt 31)]
         (started [Raises ''no such column: agee'', Returns ok_result]))
     = Inl (PyException ''Update failed: no such column: agee'')
   \<and> fst (update scripted ''test_table'' [(''name'', PStr ''Alice'')] [(''agee'', PInt 31)]
         (init [Returns ok_result, Raises ''no such column: agee'', Returns ok_result]))
     = Inl (PyException ''Update failed: no such column: agee'')
   \<and> update scripted ''test_table'' [(''name'', PStr ''Alice'')] [(''agee'', PInt 31)]
         (init [Raises ''database is locked''])
     = (Inl (PyException ''Transaction start failed: database is locked''),
        (init [Raises ''database is locked''])\<lparr>db := [], issued := [(begin_call, False)]\<rparr>)
   \<and> fst (delete scripted ''test_table'' [(''name'', PStr ''Alice'')]
         (started [Raises ''no such table: test_table'', Returns ok_result]))
     = Inl (PyException ''Deletion failed: no such table: test_table'')
   \<and> fst (delete scripted ''test_table'' [(''name'', PStr ''Alice'')]
         (init [Returns ok_result, Raises ''no such table: test_table'', Returns ok_result]))
     = Inl (PyException ''Deletion failed: no such table: test_table'')
   \<and> fst (delete scripted ''test_table'' [(''name'', PStr ''Alice'')]
         (init [Raises ''database is locked'']))
     = Inl (PyException ''Transaction start failed: database is locked'')
   \<and> fst (create scripted ''test_table'' [(''name'', PStr ''Alice''), (''age'', PInt 30)]
         (started [Returns test_table_info, Raises ''database is locked'', Returns ok_result]))
     = Inl (PyException ''Insertion failed: database is locked'')
   \<and> fst (create scripted ''test_table'' [(''name'', PStr ''Alice''), (''age'', PInt 30)]
         (init [Returns test_table_info, Returns ok_result, Raises ''database is locked'',
                Returns ok_result]))
     = Inl (PyException ''Insertion failed: database is locked'')
   \<and> fst (create scripted ''test_table'' [(''name'', PStr ''Alice''), (''age'', PInt 30)]
         (init [Returns test_table_info, Raises ''database is locked'']))
     = Inl (PyException ''Transaction start failed: database is locked'')
   \<and> update scripted ''test_table'' [(''name'', PStr ''Alice'')]
         [(''age'', PInt 9223372036854775808)]
         (init [Returns ok_result, RaisesOther (OverflowError ''Python int too large'')])
     = (Inl (Other (OverflowError ''Python int too large'')),
        (init [])\<lparr>issued :=
                    [(begin_call, True),
                     (update_call ''test_table'' [(''name'', PStr ''Alice'')]
                        [(''age'', PInt 9223372036854775808)], False)],
                  in_transaction := True\<rparr>)"
proof -
  let ?F = "[(''name'', PStr ''Alice'')]"
  let ?K = "[(''agee'', PInt 31)]"
  let ?B = "[(''age'', PInt 9223372036854775808)]"
  have o1: "update scripted ''test_table'' ?F ?B
         (init [Returns ok_result, RaisesOther (OverflowError ''Python int too large'')])
     = (Inl (Other (OverflowError ''Python int too large'')),
        (init [])\<lparr>issued :=
                    [(begin_call, True), (update_call ''test_table'' ?F ?B, False)],
                  in_transaction := True\<rparr>)"
    using statement_failure_rolls_back
      [where s = "init [Returns ok_result, RaisesOther (OverflowError ''Python int too large'')]"
         and k = Connection and eng = scripted and t = "''test_table''"
         and filters = ?F and kwargs = ?B and x = "OverflowError ''Python int too large''"
         and ?r0.0 = ok_result
         and ?d0.0 = "[RaisesOther (OverflowError ''Python int too large'')]"
         and ?d1.0 = "[]"]
    by (simp add: init_def)
  let ?A = "[(''name'', PStr ''Alice''), (''age'', PInt 30)]"
  let ?S = "[(PStr ''id'', PStr ''INTEGER''), (PStr ''name'', PStr ''TEXT''),
             (PStr ''age'', PStr ''INTEGER'')]"
  have u1: "fst (update scripted ''test_table'' ?F ?K
         (started [Raises ''no such column: agee'', Returns ok_result]))
     = Inl (PyException ''Update failed: no such column: agee'')"
    using statement_failure_rolls_back
      [where s = "started [Raises ''no such column: agee'', Returns ok_result]"
         and k = Connection and eng = scripted and t = "''test_table''"
         and filters = ?F and kwargs = ?K and e = "''no such column: agee''"
         and ?d1.0 = "[Returns ok_result]" and r = ok_result and ?d2.0 = "[]"]
    by (simp add: started_eq)
  have u2: "fst (update scripted ''test_table'' ?F ?K
         (init [Returns ok_result, Raises ''no such column: agee'', Returns ok_result]))
     = Inl (PyException ''Update failed: no such column: agee'')"
    using statement_failure_rolls_back
      [where s = "init [Returns ok_result, Raises ''no such column: agee'', Returns ok_result]"
         and k = Connection and eng = scripted and t = "''test_table''"
         and filters = ?F and kwargs = ?K and e = "''no such column: agee''"
         and ?r0.0 = ok_result
         and ?d0.0 = "[Raises ''no such column: agee'', Returns ok_result]"
         and ?d1.0 = "[Returns ok_result]" and r = ok_result and ?d2.0 = "[]"]
    by (simp add: init_def)
  have u3: "update scripted ''test_table'' ?F ?K (init [Raises ''database is locked''])
     = (Inl (PyException ''Transaction start failed: database is locked''),
        (init [Raises ''database is locked''])\<lparr>db := [], issued := [(begin_call, False)]\<rparr>)"
    using statement_failure_rolls_back
      [where s = "init [Raises ''database is locked'']"
         and k = Connection and eng = scripted and t = "''test_table''"
         and filters = ?F and kwargs = ?K and e = "''database is locked''" and ?d0.0 = "[]"]
    by (simp add: init_def)
  have d1: "fst (delete scripted ''test_table'' ?F
         (started [Raises ''no such table: test_table'', Returns ok_result]))
     = Inl (PyException ''Deletion failed: no such table: test_table'')"
    using statement_failure_rolls_back
      [where s = "started [Raises ''no such table: test_table'', Returns ok_result]"
         and k = Connection and eng = scripted and t = "''test_table''"
         and kwargs = ?F and e = "''no such table: test_table''"
         and ?d1.0 = "[Returns ok_result]" and r = ok_result and ?d2.0 = "[]"]
    by (simp add: started_eq)
  have d2: "fst (delete scripted ''test_table'' ?F
         (init [Returns ok_result, Raises ''no such table: test_table'', Returns ok_result]))
     = Inl (PyException ''Deletion failed: no such table: test_table'')"
    using statement_failure_rolls_back
      [where s = "init [Returns ok_result, Raises ''no such table: test_table'', Returns ok_result]"
         and k = Connection and eng = scripted and t = "''test_table''"
         and kwargs = ?F and e = "''no such table: test_table''"
         and ?r0.0 = ok_result
         and ?d0.0 = "[Raises ''no such table: test_table'', Returns ok_result]"
         and ?d1.0 = "[Returns ok_result]" and r = ok_result and ?d2.0 = "[]"]
    by (simp add: init_def)
  have d3: "fst (delete scripted ''test_table'' ?F (init [Raises ''database is locked'']))
     = Inl (PyException ''Transaction start failed: database is locked'')"
    using statement_failure_rolls_back
      [where s = "init [Raises ''database is locked'']"
         and k = Connection and eng = scripted and t = "''test_table''"
         and kwargs = ?F and e = "''database is locked''" and ?d0.0 = "[]"]
    by (simp add: init_def)
  have c1: "fst (create scripted ''test_table'' ?A
         (started [Returns test_table_info, Raises ''database is locked'', Returns ok_result]))
     = Inl (PyException ''Insertion failed: database is locked'')"
    using statement_failure_rolls_back
      [where s = "started [Returns test_table_info, Raises ''database is locked'', Returns ok_result]"
         and k = Connection and eng = scripted and t = "''test_table''"
         and kwargs = ?A and schema = ?S
         and ?s0.0 = "snd (get_table_schema scripted ''test_table''
              (started [Returns test_table_info, Raises ''database is locked'', Returns ok_result]))"
         and e = "''database is locked''"
         and ?d1.0 = "[Returns ok_result]" and r = ok_result and ?d2.0 = "[]"]
      test_table_schema [where s = "started []" and script = "[Raises ''database is locked'', Returns ok_result]"]
      alice_columns_ok
    by (simp add: started_eq)
  have c2: "fst (create scripted ''test_table'' ?A
         (init [Returns test_table_info, Returns ok_result, Raises ''database is locked'',
                Returns ok_result]))
     = Inl (PyException ''Insertion failed: database is locked'')"
    using statement_failure_rolls_back
      [where s = "init [Returns test_table_info, Returns ok_result, Raises ''database is locked'',
                Returns ok_result]"
         and k = Connection and eng = scripted and t = "''test_table''"
         and kwargs = ?A and schema = ?S
         and ?s0.0 = "snd (get_table_schema scripted ''test_table''
              (init [Returns test_table_info, Returns ok_result, Raises ''database is locked'',
                Returns ok_result]))"
         and e = "''database is locked''" and ?r0.0 = ok_result
         and ?d0.0 = "[Raises ''database is locked'', Returns ok_result]"
         and ?d1.0 = "[Returns ok_result]" and r = ok_result and ?d2.0 = "[]"]
      test_table_schema [where s = "init []" and script = "[Returns ok_result, Raises ''database is locked'',
                Returns ok_result]"]
      alice_columns_ok
    by (simp add: init_def)
  have c3: "fst (create scripted ''test_table'' ?A
         (init [Returns test_table_info, Raises ''database is locked'']))
     = Inl (PyException ''Transaction start failed: database is locked'')"
    using statement_failure_rolls_back
      [where s = "init [Returns test_table_info, Raises ''database is locked'']"
         and k = Connection and eng = scripted and t = "''test_table''"
         and kwargs = ?A and schema = ?S
         and ?s0.0 = "snd (get_table_schema scripted ''test_table''
              (init [Returns test_table_info, Raises ''database is locked'']))"
         and e = "''database is locked''" and ?d0.0 = "[]"]
      test_table_schema [where s = "init []" and script = "[Raises ''database is locked'']"]
      alice_columns_ok
    by (simp add: init_def)
  show ?thesis
    using u1 u2 u3 d1 d2 d3 c1 c2 c3 o1 by simp
qed

section \<open>Who opens the transaction commits it\<close>

subsection \<open>The calls an operation adds to the log\<close>

lemma connection_call_eq:
  "connection_call eng c s =
     (case connection s of
        None \<Rightarrow> (Inl (AttributeError (no_attribute (method_name c))), s)
      | Some k \<Rightarrow>
          (case eng c (db s) of
             (Raises e, d') \<Rightarrow>
               (Inl (Sqlite3Error e), s\<lparr>db := d', issued := issued s @ [(c, False)]\<rparr>)
           | (RaisesOther x, d') \<Rightarrow>
               (Inl (Other x), s\<lparr>db := d', issued := issued s @ [(c, False)]\<rparr>)
           | (Returns r, d') \<Rightarrow> (Inr (), s\<lparr>db := d', issued := issued s @ [(c, True)]\<rparr>)))"
  by (simp add: connection_call_def issue_def split: option.split prod.split reply.split)

lemma run_outer_eq:
  assumes "in_transaction s"
  shows "run_in_transaction eng q vs s =
     (case eng (CursorExecute q vs) (db s) of
        (Raises e, d1) \<Rightarrow>
          (Inl (Sqlite3Error e),
           s\<lparr>db := d1, issued := issued s @ [(CursorExecute q vs, False)]\<rparr>)
      | (RaisesOther x, d1) \<Rightarrow>
          (Inl (Other x),
           s\<lparr>db := d1, issued := issued s @ [(CursorExecute q vs, False)]\<rparr>)
      | (Returns r1, d1) \<Rightarrow>
          (Inr (),
           s\<lparr>db := d1, issued := issued s @ [(CursorExecute q vs, True)], cursor := r1\<rparr>))"
proof (cases "eng (CursorExecute q vs) (db s)")
  case (Pair rep d1)
  show ?thesis
  proof (cases rep)
    case (Raises e)
    with Pair assms show ?thesis by (simp add: run_statement_fails_outer)
  next
    case (RaisesOther x)
    with Pair assms show ?thesis by (simp add: run_statement_other_outer)
  next
    case (Returns r1)
    with Pair assms show ?thesis by (simp add: run_leaves_outer)
  qed
qed

lemma connection_call_issued:
  assumes "connection_call eng c s1 = (r, s2)"
  shows "issued s2 = issued s1 \<or> (\<exists>ok. issued s2 = issued s1 @ [(c, ok)])"
proof (cases "connection s1")
  case None
  with assms show ?thesis by (simp add: connection_call_closed)
next
  case (Some k)
  show ?thesis
  proof (cases "eng c (db s1)")
    case (Pair rep d1)
    show ?thesis
    proof (cases rep)
      case (Raises e)
      with Pair Some assms show ?thesis by (auto simp: connection_call_raises)
    next
      case (RaisesOther y)
      with Pair Some assms show ?thesis by (auto simp: connection_call_other)
    next
      case (Returns r1)
      with Pair Some assms show ?thesis by (auto simp: connection_call_returns)
    qed
  qed
qed

lemma update_handler_issued:
  assumes "update_handler eng e s1 = (r, s2)"
  shows "issued s2 = issued s1 \<or> (\<exists>ok. issued s2 = issued s1 @ [(ConnRollback, ok)])"
proof (cases "connection_call eng ConnRollback s1")
  case (Pair x s3)
  with assms have "s2 = s3" by (cases x) (simp_all add: update_handler_def)
  with connection_call_issued [OF Pair] show ?thesis by simp
qed

lemma delete_handler_issued:
  assumes "delete_handler eng e s1 = (r, s2)"
  shows "issued s2 = issued s1 \<or> (\<exists>ok. issued s2 = issued s1 @ [(ConnRollback, ok)])"
proof (cases "connection_call eng ConnRollback s1")
  case (Pair x s3)
  with assms have "s2 = s3" by (cases x) (simp_all add: delete_handler_def)
  with connection_call_issued [OF Pair] show ?thesis by simp
qed

lemma rollback_transaction_issued:
  assumes "rollback_transaction eng s1 = (r, s2)"
  shows "issued s2 = issued s1 \<or> (\<exists>ok. issued s2 = issued s1 @ [(ConnRollback, ok)])"
proof (cases "in_transaction s1")
  case False
  with assms show ?thesis by (simp add: rollback_transaction_def)
next
  case True
  show ?thesis
  proof (cases "connection_call eng ConnRollback s1")
    case (Pair x s3)
    have "issued s2 = issued s3"
    proof (cases x)
      case (Inl y)
      with assms True Pair show ?thesis
        by (cases "sqlite_msg y") (auto simp: rollback_transaction_def)
    next
      case (Inr u)
      with assms True Pair show ?thesis by (auto simp: rollback_transaction_def)
    qed
    with connection_call_issued [OF Pair] show ?thesis by simp
  qed
qed

lemma create_handler_issued:
  assumes "create_handler eng e s1 = (r, s2)"
  shows "issued s2 = issued s1 \<or> (\<exists>ok. issued s2 = issued s1 @ [(ConnRollback, ok)])"
proof (cases "in_transaction s1")
  case False
  with assms show ?thesis by (auto simp: create_handler_def)
next
  case True
  show ?thesis
  proof (cases "rollback_transaction eng s1")
    case (Pair x s3)
    with assms True have "s2 = s3" by (cases x) (simp_all add: create_handler_def)
    with rollback_transaction_issued [OF Pair] show ?thesis by simp
  qed
qed

lemma new_calls_append:
  "issued s2 = issued s @ cs \<Longrightarrow> new_calls s s2 = cs"
  by (simp add: new_calls_def)

lemma statement_is_not_control:
  "CursorExecute q vs \<noteq> begin_call" "CursorExecute q vs \<noteq> ConnCommit"
  "ConnRollback \<noteq> begin_call"
  by (simp_all add: begin_call_def)

lemma update_outer_log:
  assumes "in_transaction s" and "update eng t filters kwargs s = (x, s2)"
  shows "\<exists>cs. issued s2 = issued s @ cs
          \<and> fst ` set cs \<subseteq> {update_call t filters kwargs, ConnRollback}"
proof (cases "filters = [] \<or> kwargs = []")
  case True
  with assms(2) have "s2 = s" by (auto simp: update_def)
  then show ?thesis by simp
next
  case False
  let ?q = "update_query t filters kwargs" and ?vs = "map snd kwargs @ map snd filters"
  show ?thesis
  proof (cases "eng (CursorExecute ?q ?vs) (db s)")
    case (Pair rep d1)
    show ?thesis
    proof (cases rep)
      case (Returns r1)
      with Pair False assms have "issued s2 = issued s @ [(update_call t filters kwargs, True)]"
        by (auto simp: update_def run_leaves_outer update_call_def)
      then show ?thesis by simp
    next
      case (Raises e)
      let ?s1 = "s\<lparr>db := d1, issued := issued s @ [(CursorExecute ?q ?vs, False)]\<rparr>"
      from Raises Pair False assms have h: "update_handler eng e ?s1 = (x, s2)"
        by (auto simp: update_def run_statement_fails_outer)
      from update_handler_issued [OF h] show ?thesis
        by (auto simp: update_call_def)
    next
      case (RaisesOther y)
      with Pair False assms have "issued s2 = issued s @ [(update_call t filters kwargs, False)]"
        by (auto simp: update_def run_statement_other_outer update_call_def)
      then show ?thesis by simp
    qed
  qed
qed

lemma delete_outer_log:
  assumes "in_transaction s" and "delete eng t kwargs s = (x, s2)"
  shows "\<exists>cs. issued s2 = issued s @ cs
          \<and> fst ` set cs \<subseteq> {delete_call t kwargs, ConnRollback}"
proof (cases "eng (CursorExecute (delete_query t kwargs) []) (db s)")
  case (Pair rep d1)
  show ?thesis
  proof (cases rep)
    case (Returns r1)
    with Pair assms have "issued s2 = issued s @ [(delete_call t kwargs, True)]"
      by (auto simp: delete_def run_leaves_outer delete_call_def)
    then show ?thesis by simp
  next
    case (Raises e)
    let ?s1 = "s\<lparr>db := d1,
      issued := issued s @ [(CursorExecute (delete_query t kwargs) [], False)]\<rparr>"
    from Raises Pair assms have h: "delete_handler eng e ?s1 = (x, s2)"
      by (auto simp: delete_def run_statement_fails_outer)
    from delete_handler_issued [OF h] show ?thesis
      by (auto simp: delete_call_def)
  next
    case (RaisesOther y)
    with Pair assms have "issued s2 = issued s @ [(delete_call t kwargs, False)]"
      by (auto simp: delete_def run_statement_other_outer delete_call_def)
    then show ?thesis by simp
  qed
qed

lemma get_table_schema_issued:
  assumes "get_table_schema eng t s = (r, s0)"
  shows "\<exists>ok. issued s0 = issued s @ [(schema_call t, ok)]"
proof (cases "eng (CursorExecute (table_info_query t) []) (db s)")
  case (Pair rep d1)
  show ?thesis
  proof (cases rep)
    case (Raises e)
    with Pair assms show ?thesis
      by (auto simp: get_table_schema_def cursor_execute_raises_eq schema_call_def)
  next
    case (RaisesOther y)
    with Pair assms show ?thesis
      by (auto simp: get_table_schema_def cursor_execute_other_eq schema_call_def)
  next
    case (Returns r1)
    with Pair assms show ?thesis
      by (cases "dict_of_rows (rows r1) []")
         (auto simp: get_table_schema_def cursor_execute_returns_eq fetchall_def schema_call_def)
  qed
qed

lemma create_outer_log:
  assumes "in_transaction s" and "create eng t kwargs s = (x, s2)"
  shows "\<exists>cs. issued s2 = issued s @ cs
          \<and> fst ` set cs \<subseteq> {schema_call t, insert_call t kwargs, ConnRollback}"
proof (cases "kwargs = []")
  case True
  with assms(2) have "s2 = s" by (simp add: create_def)
  then show ?thesis by simp
next
  case False
  obtain r s0 where g: "get_table_schema eng t s = (r, s0)"
    by (cases "get_table_schema eng t s")
  from get_table_schema_issued [OF g] obtain ok
    where i0: "issued s0 = issued s @ [(schema_call t, ok)]" by blast
  have f0: "in_transaction s0"
    using get_table_schema_keeps [OF g] assms(1) by simp
  let ?q = "insert_query t kwargs" and ?vs = "map snd kwargs"
  show ?thesis
  proof (cases r)
    case (Inl y)
    with assms(2) g False have "s2 = s0" by (simp add: create_def)
    with i0 show ?thesis by simp
  next
    case (Inr schema)
    show ?thesis
    proof (cases "schema = [] \<or> check_columns t schema kwargs \<noteq> None")
      case True
      with assms(2) g False Inr have "s2 = s0"
        by (cases "schema = []") (auto simp: create_def)
      with i0 show ?thesis by simp
    next
      case v: False
      then have v1: "schema \<noteq> []" and v2: "check_columns t schema kwargs = None" by simp_all
      note cv = create_validated [OF False g [unfolded Inr] v1 v2]
      show ?thesis
      proof (cases "eng (CursorExecute ?q ?vs) (db s0)")
        case (Pair rep d1)
        show ?thesis
        proof (cases rep)
          case (Returns r1)
          with Pair f0 assms(2) have "issued s2 = issued s0 @ [(insert_call t kwargs, True)]"
            unfolding cv by (auto simp: run_leaves_outer insert_call_def)
          with i0 show ?thesis by simp
        next
          case (Raises e)
          let ?s1 = "s0\<lparr>db := d1, issued := issued s0 @ [(CursorExecute ?q ?vs, False)]\<rparr>"
          from Raises Pair f0 assms(2) have h: "create_handler eng e ?s1 = (x, s2)"
            unfolding cv by (simp add: run_statement_fails_outer)
          from create_handler_issued [OF h] i0 show ?thesis
            by (auto simp: insert_call_def)
        next
          case (RaisesOther y)
          with Pair f0 assms(2) have "issued s2 = issued s0 @ [(insert_call t kwargs, False)]"
            unfolding cv by (auto simp: run_statement_other_outer insert_call_def)
          with i0 show ?thesis by simp
        qed
      qed
    qed
  qed
qed

lemma outer_log_has_no_begin_or_commit:
  assumes "\<exists>cs. issued s2 = issued s @ cs \<and> fst ` set cs \<subseteq> C"
    and "begin_call \<notin> C" and "ConnCommit \<notin> C"
  shows "begin_call \<notin> fst ` set (new_calls s s2) \<and> ConnCommit \<notin> fst ` set (new_calls s s2)"
proof -
  from assms(1) obtain cs where i: "issued s2 = issued s @ cs" and c: "fst ` set cs \<subseteq> C"
    by blast
  have "new_calls s s2 = cs" using i by (rule new_calls_append)
  with c assms(2,3) show ?thesis by auto
qed

text \<open>
  C1. For \<^verbatim>\<open>update\<close>, \<^verbatim>\<open>delete\<close> and \<^verbatim>\<open>create\<close>, each with its own statement
  (\<^verbatim>\<open>create\<close> after its validation, whose schema lookup is the first call in the log):
  when no transaction is flagged on entry and the engine accepts the begin, the statement
  and the commit, the operation issues exactly begin, statement, commit, in this order,
  returns, and leaves the flag false; when the flag is set on entry and the engine
  accepts the statement, the operation issues the statement alone, returns, and leaves
  the flag set; and with the flag set on entry, on every path, successful or not, no
  begin and no commit are among the calls it issues.
\<close>

theorem transaction_opened_and_closed_by_owner:
  "(filters \<noteq> [] \<and> kwargs \<noteq> [] \<and> connection s = Some k \<and> \<not> in_transaction s
      \<and> eng begin_call (db s) = (Returns r0, d0)
      \<and> eng (update_call t filters kwargs) d0 = (Returns r1, d1)
      \<and> eng ConnCommit d1 = (Returns r2, d2) \<longrightarrow>
    update eng t filters kwargs s =
      (Inr (rowcount r1),
       s\<lparr>db := d2,
          issued := issued s @ [(begin_call, True), (update_call t filters kwargs, True),
                                (ConnCommit, True)],
          cursor := r1, in_transaction := False\<rparr>))
   \<and> (filters \<noteq> [] \<and> kwargs \<noteq> [] \<and> in_transaction s
      \<and> eng (update_call t filters kwargs) (db s) = (Returns r1, d1) \<longrightarrow>
    update eng t filters kwargs s =
      (Inr (rowcount r1),
       s\<lparr>db := d1, issued := issued s @ [(update_call t filters kwargs, True)],
          cursor := r1\<rparr>))
   \<and> (in_transaction s \<longrightarrow>
        begin_call \<notin> fst ` set (new_calls s (snd (update eng t filters kwargs s)))
      \<and> ConnCommit \<notin> fst ` set (new_calls s (snd (update eng t filters kwargs s))))
   \<and> (connection s = Some k \<and> \<not> in_transaction s
      \<and> eng begin_call (db s) = (Returns r0, d0)
      \<and> eng (delete_call t kwargs) d0 = (Returns r1, d1)
      \<and> eng ConnCommit d1 = (Returns r2, d2) \<longrightarrow>
    delete eng t kwargs s =
      (Inr (rowcount r1),
       s\<lparr>db := d2,
          issued := issued s @ [(begin_call, True), (delete_call t kwargs, True),
                                (ConnCommit, True)],
          cursor := r1, in_transaction := False\<rparr>))
   \<and> (in_transaction s \<and> eng (delete_call t kwargs) (db s) = (Returns r1, d1) \<longrightarrow>
    delete eng t kwargs s =
      (Inr (rowcount r1),
       s\<lparr>db := d1, issued := issued s @ [(delete_call t kwargs, True)], cursor := r1\<rparr>))
   \<and> (in_transaction s \<longrightarrow>
        begin_call \<notin> fst ` set (new_calls s (snd (delete eng t kwargs s)))
      \<and> ConnCommit \<notin> fst ` set (new_calls s (snd (delete eng t kwargs s))))
   \<and> (kwargs \<noteq> [] \<and> get_table_schema eng t s = (Inr schema, s0) \<and> schema \<noteq> []
      \<and> check_columns t schema kwargs = None
      \<and> connection s = Some k \<and> \<not> in_transaction s
      \<and> eng begin_call (db s0) = (Returns r0, d0)
      \<and> eng (insert_call t kwargs) d0 = (Returns r1, d1)
      \<and> eng ConnCommit d1 = (Returns r2, d2) \<longrightarrow>
    create eng t kwargs s =
      (Inr (lastrowid r1),
       s0\<lparr>db := d2,
           issued := issued s0 @ [(begin_call, True), (insert_call t kwargs, True),
                                  (ConnCommit, True)],
           cursor := r1, in_transaction := False\<rparr>))
   \<and> (kwargs \<noteq> [] \<and> get_table_schema eng t s = (Inr schema, s0) \<and> schema \<noteq> []
      \<and> check_columns t schema kwargs = None \<and> in_transaction s
      \<and> eng (insert_call t kwargs) (db s0) = (Returns r1, d1) \<longrightarrow>
    create eng t kwargs s =
      (Inr (lastrowid r1),
       s0\<lparr>db := d1, issued := issued s0 @ [(insert_call t kwargs, True)], cursor := r1\<rparr>))
   \<and> (in_transaction s \<longrightarrow>
        begin_call \<notin> fst ` set (new_calls s (snd (create eng t kwargs s)))
      \<and> ConnCommit \<notin> fst ` set (new_calls s (snd (create eng t kwargs s))))"
proof (intro conjI impI)
  assume "filters \<noteq> [] \<and> kwargs \<noteq> [] \<and> connection s = Some k \<and> \<not> in_transaction s
      \<and> eng begin_call (db s) = (Returns r0, d0)
      \<and> eng (update_call t filters kwargs) d0 = (Returns r1, d1)
      \<and> eng ConnCommit d1 = (Returns r2, d2)"
  then show "update eng t filters kwargs s =
      (Inr (rowcount r1),
       s\<lparr>db := d2,
          issued := issued s @ [(begin_call, True), (update_call t filters kwargs, True),
                                (ConnCommit, True)],
          cursor := r1, in_transaction := False\<rparr>)"
    by (simp add: update_def update_call_def
        run_commits_own [where k = k and ?r0.0 = r0 and ?d0.0 = d0 and ?r1.0 = r1
          and ?d1.0 = d1 and ?r2.0 = r2 and ?d2.0 = d2])
next
  assume "filters \<noteq> [] \<and> kwargs \<noteq> [] \<and> in_transaction s
      \<and> eng (update_call t filters kwargs) (db s) = (Returns r1, d1)"
  then show "update eng t filters kwargs s =
      (Inr (rowcount r1),
       s\<lparr>db := d1, issued := issued s @ [(update_call t filters kwargs, True)],
          cursor := r1\<rparr>)"
    by (simp add: update_def update_call_def run_leaves_outer)
next
  assume a: "in_transaction s"
  obtain x s2 where u: "update eng t filters kwargs s = (x, s2)"
    by (cases "update eng t filters kwargs s")
  have "begin_call \<notin> fst ` set (new_calls s (snd (update eng t filters kwargs s)))
      \<and> ConnCommit \<notin> fst ` set (new_calls s (snd (update eng t filters kwargs s)))"
    unfolding u snd_conv
    by (rule outer_log_has_no_begin_or_commit [OF update_outer_log [OF a u]])
       (simp_all add: update_call_def begin_call_def)
  then show "begin_call \<notin> fst ` set (new_calls s (snd (update eng t filters kwargs s)))"
    and "ConnCommit \<notin> fst ` set (new_calls s (snd (update eng t filters kwargs s)))"
    by simp_all
next
  assume "connection s = Some k \<and> \<not> in_transaction s
      \<and> eng begin_call (db s) = (Returns r0, d0)
      \<and> eng (delete_call t kwargs) d0 = (Returns r1, d1)
      \<and> eng ConnCommit d1 = (Returns r2, d2)"
  then show "delete eng t kwargs s =
      (Inr (rowcount r1),
       s\<lparr>db := d2,
          issued := issued s @ [(begin_call, True), (delete_call t kwargs, True),
                                (ConnCommit, True)],
          cursor := r1, in_transaction := False\<rparr>)"
    by (simp add: delete_def delete_call_def
        run_commits_own [where k = k and ?r0.0 = r0 and ?d0.0 = d0 and ?r1.0 = r1
          and ?d1.0 = d1 and ?r2.0 = r2 and ?d2.0 = d2])
next
  assume "in_transaction s \<and> eng (delete_call t kwargs) (db s) = (Returns r1, d1)"
  then show "delete eng t kwargs s =
      (Inr (rowcount r1),
       s\<lparr>db := d1, issued := issued s @ [(delete_call t kwargs, True)], cursor := r1\<rparr>)"
    by (simp add: delete_def delete_call_def run_leaves_outer)
next
  assume a: "in_transaction s"
  obtain x s2 where u: "delete eng t kwargs s = (x, s2)"
    by (cases "delete eng t kwargs s")
  have "begin_call \<notin> fst ` set (new_calls s (snd (delete eng t kwargs s)))
      \<and> ConnCommit \<notin> fst ` set (new_calls s (snd (delete eng t kwargs s)))"
    unfolding u snd_conv
    by (rule outer_log_has_no_begin_or_commit [OF delete_outer_log [OF a u]])
       (simp_all add: delete_call_def begin_call_def)
  then show "begin_call \<notin> fst ` set (new_calls s (snd (delete eng t kwargs s)))"
    and "ConnCommit \<notin> fst ` set (new_calls s (snd (delete eng t kwargs s)))"
    by simp_all
next
  assume h: "kwargs \<noteq> [] \<and> get_table_schema eng t s = (Inr schema, s0) \<and> schema \<noteq> []
      \<and> check_columns t schema kwargs = None
      \<and> connection s = Some k \<and> \<not> in_transaction s
      \<and> eng begin_call (db s0) = (Returns r0, d0)
      \<and> eng (insert_call t kwargs) d0 = (Returns r1, d1)
      \<and> eng ConnCommit d1 = (Returns r2, d2)"
  then have g: "get_table_schema eng t s = (Inr schema, s0)" by simp
  have k0: "connection s0 = Some k" and f0: "\<not> in_transaction s0"
    using get_table_schema_keeps [OF g] h by simp_all
  have cv: "create eng t kwargs s =
     (case run_in_transaction eng (insert_query t kwargs) (map snd kwargs) s0 of
        (Inr u, s1) \<Rightarrow> (Inr (lastrowid (cursor s1)), s1)
      | (Inl x, s1) \<Rightarrow>
          (case sqlite_msg x of
             Some e \<Rightarrow> create_handler eng e s1
           | None \<Rightarrow> (Inl x, s1)))"
    using h create_validated [of kwargs eng t s schema s0] by simp
  from h k0 f0 show "create eng t kwargs s =
      (Inr (lastrowid r1),
       s0\<lparr>db := d2,
           issued := issued s0 @ [(begin_call, True), (insert_call t kwargs, True),
                                  (ConnCommit, True)],
           cursor := r1, in_transaction := False\<rparr>)"
    unfolding cv
    by (simp add: insert_call_def
        run_commits_own [where k = k and ?r0.0 = r0 and ?d0.0 = d0 and ?r1.0 = r1
          and ?d1.0 = d1 and ?r2.0 = r2 and ?d2.0 = d2])
next
  assume h: "kwargs \<noteq> [] \<and> get_table_schema eng t s = (Inr schema, s0) \<and> schema \<noteq> []
      \<and> check_columns t schema kwargs = None \<and> in_transaction s
      \<and> eng (insert_call t kwargs) (db s0) = (Returns r1, d1)"
  then have g: "get_table_schema eng t s = (Inr schema, s0)" by simp
  have f0: "in_transaction s0"
    using get_table_schema_keeps [OF g] h by simp
  have cv: "create eng t kwargs s =
     (case run_in_transaction eng (insert_query t kwargs) (map snd kwargs) s0 of
        (Inr u, s1) \<Rightarrow> (Inr (lastrowid (cursor s1)), s1)
      | (Inl x, s1) \<Rightarrow>
          (case sqlite_msg x of
             Some e \<Rightarrow> create_handler eng e s1
           | None \<Rightarrow> (Inl x, s1)))"
    using h create_validated [of kwargs eng t s schema s0] by simp
  from h f0 show "create eng t kwargs s =
      (Inr (lastrowid r1),
       s0\<lparr>db := d1, issued := issued s0 @ [(insert_call t kwargs, True)], cursor := r1\<rparr>)"
    unfolding cv by (simp add: insert_call_def run_leaves_outer)
next
  assume a: "in_transaction s"
  obtain x s2 where u: "create eng t kwargs s = (x, s2)"
    by (cases "create eng t kwargs s")
  have "begin_call \<notin> fst ` set (new_calls s (snd (create eng t kwargs s)))
      \<and> ConnCommit \<notin> fst ` set (new_calls s (snd (create eng t kwargs s)))"
    unfolding u snd_conv
    by (rule outer_log_has_no_begin_or_commit [OF create_outer_log [OF a u]])
       (simp_all add: insert_call_def schema_call_def begin_call_def)
  then show "begin_call \<notin> fst ` set (new_calls s (snd (create eng t kwargs s)))"
    and "ConnCommit \<notin> fst ` set (new_calls s (snd (create eng t kwargs s)))"
    by simp_all
qed

theorem transaction_opened_and_closed_by_owner_witness:
  "update scripted ''test_table'' [(''name'', PStr ''Alice'')] [(''age'', PInt 31)]
       (init [Returns ok_result, Returns changed_one, Returns ok_result])
     = (Inr 1,
        \<lparr>connection = Some Connection, cursor = changed_one, in_transaction = False, db = [],
         issued = [(begin_call, True),
                   (update_call ''test_table'' [(''name'', PStr ''Alice'')] [(''age'', PInt 31)], True),
                   (ConnCommit, True)]\<rparr>)
   \<and> update scripted ''test_table'' [(''name'', PStr ''Alice'')] [(''age'', PInt 31)]
       (started [Returns changed_one])
     = (Inr 1,
        \<lparr>connection = Some Connection, cursor = changed_one, in_transaction = True, db = [],
         issued = [(begin_call, True),
                   (update_call ''test_table'' [(''name'', PStr ''Alice'')] [(''age'', PInt 31)], True)]\<rparr>)
   \<and> ConnCommit \<notin> fst ` set (new_calls (started [Returns changed_one])
         (snd (update scripted ''test_table'' [(''name'', PStr ''Alice'')] [(''age'', PInt 31)]
                (started [Returns changed_one]))))
   \<and> delete scripted ''test_table'' [(''name'', PStr ''Alice'')]
       (init [Returns ok_result, Returns changed_one, Returns ok_result])
     = (Inr 1,
        \<lparr>connection = Some Connection, cursor = changed_one, in_transaction = False, db = [],
         issued = [(begin_call, True),
                   (delete_call ''test_table'' [(''name'', PStr ''Alice'')], True),
                   (ConnCommit, True)]\<rparr>)
   \<and> delete scripted ''test_table'' [(''name'', PStr ''Alice'')] (started [Returns changed_one])
     = (Inr 1,
        \<lparr>connection = Some Connection, cursor = changed_one, in_transaction = True, db = [],
         issued = [(begin_call, True),
                   (delete_call ''test_table'' [(''name'', PStr ''Alice'')], True)]\<rparr>)
   \<and> ConnCommit \<notin> fst ` set (new_calls (started [Returns changed_one])
         (snd (delete scripted ''test_table'' [(''name'', PStr ''Alice'')]
                (started [Returns changed_one]))))
   \<and> create scripted ''test_table'' [(''name'', PStr ''Alice''), (''age'', PInt 30)]
       (init [Returns test_table_info, Returns ok_result, Returns inserted_first, Returns ok_result])
     = (Inr (Some 1),
        \<lparr>connection = Some Connection, cursor = inserted_first, in_transaction = False, db = [],
         issued = [(schema_call ''test_table'', True), (begin_call, True),
                   (insert_call ''test_table'' [(''name'', PStr ''Alice''), (''age'', PInt 30)], True),
                   (ConnCommit, True)]\<rparr>)
   \<and> create scripted ''test_table'' [(''name'', PStr ''Alice''), (''age'', PInt 30)]
       (started [Returns test_table_info, Returns inserted_first])
     = (Inr (Some 1),
        \<lparr>connection = Some Connection, cursor = inserted_first, in_transaction = True, db = [],
         issued = [(begin_call, True), (schema_call ''test_table'', True),
                   (insert_call ''test_table'' [(''name'', PStr ''Alice''), (''age'', PInt 30)], True)]\<rparr>)
   \<and> ConnCommit \<notin> fst ` set (new_calls (started [Returns test_table_info, Returns inserted_first])
         (snd (create scripted ''test_table'' [(''name'', PStr ''Alice''), (''age'', PInt 30)]
                (started [Returns test_table_info, Returns inserted_first]))))"
proof -
  let ?F = "[(''name'', PStr ''Alice'')]"
  let ?K = "[(''age'', PInt 31)]"
  let ?A = "[(''name'', PStr ''Alice''), (''age'', PInt 30)]"
  let ?S = "[(PStr ''id'', PStr ''INTEGER''), (PStr ''name'', PStr ''TEXT''),
             (PStr ''age'', PStr ''INTEGER'')]"
  have u1: "update scripted ''test_table'' ?F ?K
       (init [Returns ok_result, Returns changed_one, Returns ok_result])
     = (Inr 1,
        \<lparr>connection = Some Connection, cursor = changed_one, in_transaction = False, db = [],
         issued = [(begin_call, True), (update_call ''test_table'' ?F ?K, True),
                   (ConnCommit, True)]\<rparr>)"
    using transaction_opened_and_closed_by_owner
      [where k = Connection and eng = scripted and t = "''test_table''"
         and ?r0.0 = ok_result and ?d0.0 = "[Returns changed_one, Returns ok_result]"
         and ?r1.0 = changed_one and ?d1.0 = "[Returns ok_result]"
         and ?r2.0 = ok_result and ?d2.0 = "[]" and s = "init [Returns ok_result, Returns changed_one, Returns ok_result]"
        and filters = ?F and kwargs = ?K]
    by (simp add: init_def changed_one_def)
  have u2: "update scripted ''test_table'' ?F ?K (started [Returns changed_one])
     = (Inr 1,
        \<lparr>connection = Some Connection, cursor = changed_one, in_transaction = True, db = [],
         issued = [(begin_call, True), (update_call ''test_table'' ?F ?K, True)]\<rparr>)
     \<and> ConnCommit \<notin> fst ` set (new_calls (started [Returns changed_one])
         (snd (update scripted ''test_table'' ?F ?K (started [Returns changed_one]))))"
    using transaction_opened_and_closed_by_owner
      [where eng = scripted and t = "''test_table''" and ?r1.0 = changed_one and ?d1.0 = "[]" and s = "started [Returns changed_one]"
        and filters = ?F and kwargs = ?K]
    by (simp add: started_eq changed_one_def new_calls_def update_call_def delete_call_def)
  have d1: "delete scripted ''test_table'' ?F
       (init [Returns ok_result, Returns changed_one, Returns ok_result])
     = (Inr 1,
        \<lparr>connection = Some Connection, cursor = changed_one, in_transaction = False, db = [],
         issued = [(begin_call, True), (delete_call ''test_table'' ?F, True),
                   (ConnCommit, True)]\<rparr>)"
    using transaction_opened_and_closed_by_owner
      [where k = Connection and eng = scripted and t = "''test_table''"
         and ?r0.0 = ok_result and ?d0.0 = "[Returns changed_one, Returns ok_result]"
         and ?r1.0 = changed_one and ?d1.0 = "[Returns ok_result]"
         and ?r2.0 = ok_result and ?d2.0 = "[]" and s = "init [Returns ok_result, Returns changed_one, Returns ok_result]"
        and kwargs = ?F]
    by (simp add: init_def changed_one_def)
  have d2: "delete scripted ''test_table'' ?F (started [Returns changed_one])
     = (Inr 1,
        \<lparr>connection = Some Connection, cursor = changed_one, in_transaction = True, db = [],
         issued = [(begin_call, True), (delete_call ''test_table'' ?F, True)]\<rparr>)
     \<and> ConnCommit \<notin> fst ` set (new_calls (started [Returns changed_one])
         (snd (delete scripted ''test_table'' ?F (started [Returns changed_one]))))"
    using transaction_opened_and_closed_by_owner
      [where eng = scripted and t = "''test_table''" and ?r1.0 = changed_one and ?d1.0 = "[]" and s = "started [Returns changed_one]" and kwargs = ?F]
    by (simp add: started_eq changed_one_def new_calls_def update_call_def delete_call_def)
  have c1: "create scripted ''test_table'' ?A
       (init [Returns test_table_info, Returns ok_result, Returns inserted_first, Returns ok_result])
     = (Inr (Some 1),
        \<lparr>connection = Some Connection, cursor = inserted_first, in_transaction = False, db = [],
         issued = [(schema_call ''test_table'', True), (begin_call, True),
                   (insert_call ''test_table'' ?A, True), (ConnCommit, True)]\<rparr>)"
    using transaction_opened_and_closed_by_owner
      [where k = Connection and eng = scripted and t = "''test_table''"
         and ?r0.0 = ok_result and ?d0.0 = "[Returns inserted_first, Returns ok_result]"
         and ?r1.0 = inserted_first and ?d1.0 = "[Returns ok_result]"
         and ?r2.0 = ok_result and ?d2.0 = "[]" and s = "init [Returns test_table_info, Returns ok_result,
                                 Returns inserted_first, Returns ok_result]"
        and kwargs = ?A and schema = ?S
        and ?s0.0 = "snd (get_table_schema scripted ''test_table''
              (init [Returns test_table_info, Returns ok_result, Returns inserted_first,
                     Returns ok_result]))"]
      test_table_schema [where s = "init []"
        and script = "[Returns ok_result, Returns inserted_first, Returns ok_result]"]
      alice_columns_ok
    by (simp add: init_def inserted_first_def)
  have c2: "create scripted ''test_table'' ?A
       (started [Returns test_table_info, Returns inserted_first])
     = (Inr (Some 1),
        \<lparr>connection = Some Connection, cursor = inserted_first, in_transaction = True, db = [],
         issued = [(begin_call, True), (schema_call ''test_table'', True),
                   (insert_call ''test_table'' ?A, True)]\<rparr>)
     \<and> ConnCommit \<notin> fst ` set (new_calls (started [Returns test_table_info, Returns inserted_first])
         (snd (create scripted ''test_table'' ?A
                (started [Returns test_table_info, Returns inserted_first]))))"
    using transaction_opened_and_closed_by_owner
      [where eng = scripted and t = "''test_table''" and ?r1.0 = inserted_first and ?d1.0 = "[]" and s = "started [Returns test_table_info, Returns inserted_first]"
        and kwargs = ?A and schema = ?S
        and ?s0.0 = "snd (get_table_schema scripted ''test_table''
              (started [Returns test_table_info, Returns inserted_first]))"]
      test_table_schema [where s = "started []" and script = "[Returns inserted_first]"]
      alice_columns_ok
    by (simp add: started_eq inserted_first_def new_calls_def insert_call_def schema_call_def)
  show ?thesis
    using u1 u2 d1 d2 c1 c2 by blast
qed

section \<open>Validation comes first\<close>

subsection \<open>The checks of create\<close>

lemma check_columns_none_iff:
  "check_columns t schema kwargs = None \<longleftrightarrow> \<not> list_ex (bad_column schema) kwargs"
proof (induction kwargs)
  case Nil
  show ?case by simp
next
  case (Cons kv kwargs)
  obtain col v where kv: "kv = (col, v)" by (cases kv)
  show ?case
  proof (cases "map_of schema (PStr col)")
    case None
    with kv show ?thesis by simp
  next
    case (Some ty)
    with kv Cons.IH show ?thesis by (cases ty) (auto simp: Let_def)
  qed
qed

lemma get_table_schema_effect:
  assumes "get_table_schema eng t s = (r, s0)"
  shows "in_transaction s0 = in_transaction s \<and> connection s0 = connection s
       \<and> new_calls s s0 = [(schema_call t, returned (fst (eng (schema_call t) (db s))))]
       \<and> db s0 = snd (eng (schema_call t) (db s))"
proof (cases "eng (CursorExecute (table_info_query t) []) (db s)")
  case (Pair rep d1)
  show ?thesis
  proof (cases rep)
    case (Raises e)
    with Pair assms show ?thesis
      by (auto simp: get_table_schema_def cursor_execute_raises_eq schema_call_def new_calls_def)
  next
    case (RaisesOther y)
    with Pair assms show ?thesis
      by (auto simp: get_table_schema_def cursor_execute_other_eq schema_call_def new_calls_def)
  next
    case (Returns r1)
    with Pair assms show ?thesis
      by (cases "dict_of_rows (rows r1) []")
         (auto simp: get_table_schema_def cursor_execute_returns_eq fetchall_def schema_call_def
            new_calls_def)
  qed
qed

lemma get_table_schema_no_rows:
  assumes "eng (schema_call t) (db s) = (Returns r, d)" and "rows r = []"
  shows "fst (get_table_schema eng t s) = Inr []"
  using assms
  by (simp add: get_table_schema_def schema_call_def cursor_execute_returns_eq fetchall_def)

lemma create_rejects:
  assumes "kwargs \<noteq> []" and "get_table_schema eng t s = (Inr schema, s0)"
  shows "(schema = [] \<longrightarrow>
           create eng t kwargs s =
             (Inl (ValueError (''Table '' @ quote @ t @ quote
                     @ '' does not exist or could not be retrieved'')), s0))
       \<and> (schema \<noteq> [] \<and> check_columns t schema kwargs = Some x \<longrightarrow>
           create eng t kwargs s = (Inl x, s0))"
  using assms by (simp add: create_def)

text \<open>
  C6. The validation errors of \<^verbatim>\<open>update\<close> and \<^verbatim>\<open>create\<close> are raised before anything
  is begun or changed. \<^verbatim>\<open>update\<close> with no filter or no value, and \<^verbatim>\<open>create\<close> with no
  value, raise \<^verbatim>\<open>ValueError\<close> and leave the object as it is, nothing sent to the engine.
  Otherwise \<^verbatim>\<open>create\<close> looks the schema up; a table that is missing (the lookup raises, or
  returns no row) gives the empty schema and \<^verbatim>\<open>ValueError\<close>; a keyword argument that
  names no column gives \<^verbatim>\<open>ValueError\<close>, one whose value does not have the declared type
  gives \<^verbatim>\<open>TypeError\<close>. In each of these cases the object is left as the schema lookup
  left it: the flag and the connection as before, that one read the only call issued.
\<close>

theorem validation_precedes_transaction:
  "(filters = [] \<or> kwargs = [] \<longrightarrow>
      update eng t filters kwargs s =
        (Inl (ValueError ''Both filters and update data must be provided''), s))
   \<and> create eng t [] s = (Inl (ValueError ''No data provided for insertion''), s)
   \<and> (kwargs \<noteq> [] \<and> get_table_schema eng t s = (Inr [], s0) \<longrightarrow>
      create eng t kwargs s =
        (Inl (ValueError (''Table '' @ quote @ t @ quote
                @ '' does not exist or could not be retrieved'')), s0))
   \<and> (kwargs \<noteq> [] \<and> get_table_schema eng t s = (Inr schema, s0) \<and> schema \<noteq> []
        \<and> list_ex (bad_column schema) kwargs \<longrightarrow>
      check_columns t schema kwargs \<noteq> None
      \<and> create eng t kwargs s = (Inl (the (check_columns t schema kwargs)), s0))
   \<and> (get_table_schema eng t s = (res, s0) \<longrightarrow>
      in_transaction s0 = in_transaction s \<and> connection s0 = connection s
      \<and> new_calls s s0 = [(schema_call t, returned (fst (eng (schema_call t) (db s))))]
      \<and> db s0 = snd (eng (schema_call t) (db s)))
   \<and> (eng (schema_call t) (db s) = (Returns r, d) \<and> rows r = [] \<longrightarrow>
      fst (get_table_schema eng t s) = Inr [])
   \<and> (eng (schema_call t) (db s) = (Raises e, d) \<longrightarrow>
      fst (get_table_schema eng t s) = Inr [])
   \<and> (map_of schema (PStr col) = None \<longrightarrow>
      check_columns t schema ((col, v) # rest) =
        Some (ValueError (''Column '' @ quote @ col @ quote @ '' does not exist in table ''
                @ quote @ t @ quote)))
   \<and> (map_of schema (PStr col) = Some (PStr ty) \<and> upper ty = ''INTEGER'' \<and> \<not> is_int v \<longrightarrow>
      check_columns t schema ((col, v) # rest) =
        Some (TypeError (''Value for column '' @ quote @ col @ quote
                @ '' should be of type INTEGER'')))
   \<and> (map_of schema (PStr col) = Some (PStr ty) \<and> upper ty = ''TEXT'' \<and> \<not> is_str v \<longrightarrow>
      check_columns t schema ((col, v) # rest) =
        Some (TypeError (''Value for column '' @ quote @ col @ quote
                @ '' should be of type TEXT'')))
   \<and> (map_of schema (PStr col) = Some (PStr ty) \<and> upper ty = ''REAL''
        \<and> \<not> is_int_or_float v \<longrightarrow>
      check_columns t schema ((col, v) # rest) =
        Some (TypeError (''Value for column '' @ quote @ col @ quote
                @ '' should be of type REAL'')))
   \<and> (map_of schema (PStr col) = Some (PStr ty) \<and> upper ty = ''BLOB''
        \<and> \<not> is_bytes_or_bytearray v \<longrightarrow>
      check_columns t schema ((col, v) # rest) =
        Some (TypeError (''Value for column '' @ quote @ col @ quote
                @ '' should be of type BLOB'')))"
proof -
  have a1: "filters = [] \<or> kwargs = [] \<longrightarrow>
      update eng t filters kwargs s =
        (Inl (ValueError ''Both filters and update data must be provided''), s)"
    by (simp add: update_def)
  have a2: "create eng t [] s = (Inl (ValueError ''No data provided for insertion''), s)"
    by (simp add: create_def)
  have a3: "kwargs \<noteq> [] \<and> get_table_schema eng t s = (Inr [], s0) \<longrightarrow>
      create eng t kwargs s =
        (Inl (ValueError (''Table '' @ quote @ t @ quote
                @ '' does not exist or could not be retrieved'')), s0)"
    by (simp add: create_def)
  have a4: "kwargs \<noteq> [] \<and> get_table_schema eng t s = (Inr schema, s0) \<and> schema \<noteq> []
        \<and> list_ex (bad_column schema) kwargs \<longrightarrow>
      check_columns t schema kwargs \<noteq> None
      \<and> create eng t kwargs s = (Inl (the (check_columns t schema kwargs)), s0)"
  proof (intro impI)
    assume h: "kwargs \<noteq> [] \<and> get_table_schema eng t s = (Inr schema, s0) \<and> schema \<noteq> []
        \<and> list_ex (bad_column schema) kwargs"
    then have n: "check_columns t schema kwargs \<noteq> None"
      by (simp add: check_columns_none_iff)
    then obtain x where x: "check_columns t schema kwargs = Some x" by blast
    with h create_rejects [of kwargs eng t s schema s0 x]
    show "check_columns t schema kwargs \<noteq> None
      \<and> create eng t kwargs s = (Inl (the (check_columns t schema kwargs)), s0)"
      by simp
  qed
  have a5: "get_table_schema eng t s = (res, s0) \<longrightarrow>
      in_transaction s0 = in_transaction s \<and> connection s0 = connection s
      \<and> new_calls s s0 = [(schema_call t, returned (fst (eng (schema_call t) (db s))))]
      \<and> db s0 = snd (eng (schema_call t) (db s))"
    using get_table_schema_effect [of eng t s res s0] by blast
  have a6: "eng (schema_call t) (db s) = (Returns r, d) \<and> rows r = [] \<longrightarrow>
      fst (get_table_schema eng t s) = Inr []"
    using get_table_schema_no_rows [of eng t s r d] by blast
  have a7: "eng (schema_call t) (db s) = (Raises e, d) \<longrightarrow>
      fst (get_table_schema eng t s) = Inr []"
    using get_table_schema_on_failure [of eng t s e] by (simp add: schema_call_def)
  have a8: "map_of schema (PStr col) = None \<longrightarrow>
      check_columns t schema ((col, v) # rest) =
        Some (ValueError (''Column '' @ quote @ col @ quote @ '' does not exist in table ''
                @ quote @ t @ quote))"
    by simp
  have a9: "map_of schema (PStr col) = Some (PStr ty) \<and> upper ty = ''INTEGER'' \<and> \<not> is_int v \<longrightarrow>
      check_columns t schema ((col, v) # rest) =
        Some (TypeError (''Value for column '' @ quote @ col @ quote
                @ '' should be of type INTEGER''))"
    by simp
  have a10: "map_of schema (PStr col) = Some (PStr ty) \<and> upper ty = ''TEXT'' \<and> \<not> is_str v \<longrightarrow>
      check_columns t schema ((col, v) # rest) =
        Some (TypeError (''Value for column '' @ quote @ col @ quote
                @ '' should be of type TEXT''))"
    by simp
  have a11: "map_of schema (PStr col) = Some (PStr ty) \<and> upper ty = ''REAL''
        \<and> \<not> is_int_or_float v \<longrightarrow>
      check_columns t schema ((col, v) # rest) =
        Some (TypeError (''Value for column '' @ quote @ col @ quote
                @ '' should be of type REAL''))"
    by simp
  have a12: "map_of schema (PStr col) = Some (PStr ty) \<and> upper ty = ''BLOB''
        \<and> \<not> is_bytes_or_bytearray v \<longrightarrow>
      check_columns t schema ((col, v) # rest) =
        Some (TypeError (''Value for column '' @ quote @ col @ quote
                @ '' should be of type BLOB''))"
    by simp
  from a1 a2 a3 a4 a5 a6 a7 a8 a9 a10 a11 a12 show ?thesis by blast
qed

theorem validation_precedes_transaction_witness:
  "update scripted ''test_table'' [] [(''age'', PInt 31)] (init [])
     = (Inl (ValueError ''Both filters and update data must be provided''), init [])
   \<and> create scripted ''test_table'' [] (init [])
     = (Inl (ValueError ''No data provided for insertion''), init [])
   \<and> fst (create scripted ''test_table'' [(''age'', PStr ''30'')] (init [Returns test_table_info]))
     = Inl (TypeError (''Value for column '' @ quote @ ''age'' @ quote
              @ '' should be of type INTEGER''))
   \<and> \<not> in_transaction (snd (create scripted ''test_table'' [(''age'', PStr ''30'')]
                               (init [Returns test_table_info])))
   \<and> issued (snd (create scripted ''test_table'' [(''age'', PStr ''30'')]
                    (init [Returns test_table_info])))
     = [(schema_call ''test_table'', True)]
   \<and> fst (create scripted ''test_table'' [(''nam'', PStr ''Alice'')] (init [Returns test_table_info]))
     = Inl (ValueError (''Column '' @ quote @ ''nam'' @ quote @ '' does not exist in table ''
              @ quote @ ''test_table'' @ quote))
   \<and> fst (create scripted ''test_table'' [(''name'', PStr ''Alice'')] (init [Returns ok_result]))
     = Inl (ValueError (''Table '' @ quote @ ''test_table'' @ quote
              @ '' does not exist or could not be retrieved''))"
proof -
  let ?S = "[(PStr ''id'', PStr ''INTEGER''), (PStr ''name'', PStr ''TEXT''),
             (PStr ''age'', PStr ''INTEGER'')]"
  have sch: "get_table_schema scripted ''test_table'' (init [Returns test_table_info]) =
     (Inr ?S,
      (init [])\<lparr>db := [], issued := [(schema_call ''test_table'', True)],
                cursor := test_table_info\<lparr>rows := []\<rparr>\<rparr>)"
    using test_table_schema [where s = "init []" and script = "[]"]
    by (simp add: init_def)
  have w1: "update scripted ''test_table'' [] [(''age'', PInt 31)] (init [])
     = (Inl (ValueError ''Both filters and update data must be provided''), init [])
   \<and> create scripted ''test_table'' [] (init [])
     = (Inl (ValueError ''No data provided for insertion''), init [])"
    using validation_precedes_transaction
      [where filters = "[]" and kwargs = "[(''age'', PInt 31)]" and eng = scripted
         and t = "''test_table''" and s = "init []"]
    by simp
  have w4: "fst (create scripted ''test_table'' [(''age'', PStr ''30'')] (init [Returns test_table_info]))
     = Inl (TypeError (''Value for column '' @ quote @ ''age'' @ quote
              @ '' should be of type INTEGER''))
   \<and> \<not> in_transaction (snd (create scripted ''test_table'' [(''age'', PStr ''30'')]
                               (init [Returns test_table_info])))
   \<and> issued (snd (create scripted ''test_table'' [(''age'', PStr ''30'')]
                    (init [Returns test_table_info])))
     = [(schema_call ''test_table'', True)]"
    using validation_precedes_transaction
      [where kwargs = "[(''age'', PStr ''30'')]" and eng = scripted
         and t = "''test_table''" and s = "init [Returns test_table_info]"
         and schema = ?S
         and ?s0.0 = "(init [])\<lparr>db := [], issued := [(schema_call ''test_table'', True)],
                cursor := test_table_info\<lparr>rows := []\<rparr>\<rparr>"
         and col = "''age''" and v = "PStr ''30''" and rest = "[]" and ty = "''INTEGER''"]
      sch
    by (simp add: init_def upper_def upper_char_def)
  have w5: "fst (create scripted ''test_table'' [(''nam'', PStr ''Alice'')] (init [Returns test_table_info]))
     = Inl (ValueError (''Column '' @ quote @ ''nam'' @ quote @ '' does not exist in table ''
              @ quote @ ''test_table'' @ quote))"
    using validation_precedes_transaction
      [where kwargs = "[(''nam'', PStr ''Alice'')]" and eng = scripted
         and t = "''test_table''" and s = "init [Returns test_table_info]"
         and schema = ?S
         and ?s0.0 = "(init [])\<lparr>db := [], issued := [(schema_call ''test_table'', True)],
                cursor := test_table_info\<lparr>rows := []\<rparr>\<rparr>"
         and col = "''nam''" and v = "PStr ''Alice''" and rest = "[]"]
      sch
    by (simp add: init_def)
  have w3: "fst (create scripted ''test_table'' [(''name'', PStr ''Alice'')] (init [Returns ok_result]))
     = Inl (ValueError (''Table '' @ quote @ ''test_table'' @ quote
              @ '' does not exist or could not be retrieved''))"
    using validation_precedes_transaction
      [where kwargs = "[(''name'', PStr ''Alice'')]" and eng = scripted
         and t = "''test_table''" and s = "init [Returns ok_result]"
         and ?s0.0 = "snd (get_table_schema scripted ''test_table'' (init [Returns ok_result]))"
         and r = ok_result and d = "[]"]
    by (simp add: init_def ok_result_def schema_call_def get_table_schema_def
        cursor_execute_eq fetchall_def)
  show ?thesis
    using w1 w3 w4 w5 by blast
qed

end
